theory Spec2Isabelle
  imports Complex_Main "HOL-Library.AList"
begin

text \<open>
  A shallow embedding of the change detection engine of \<open>change_detector.py\<close>: the two
  spectral indices, the pixel change detector with its dynamic threshold, the analysis of
  the index arrays, the reconciliation of the two figures in \<open>process_geotiff\<close>, the RGB
  analysis and the entry point \<open>detect_changes\<close>. NumPy arrays are a shape with an element
  function, exceptions are values of a sum type, and the file system is a parameter.
\<close>

section \<open>Numeric values\<close>

text \<open>
  A NumPy floating-point element. Finite values are idealised as exact reals (rounding and
  overflow of float32/float64 are not represented, and there is no signed zero); the IEEE
  special values are kept, so that a division by zero shows up as \<open>NaN\<close> or an infinity
  instead of HOL's \<open>x / 0 = 0\<close>.
\<close>

datatype npfloat = Fin real | PInf | NInf | NaN

fun fneg :: "npfloat \<Rightarrow> npfloat" where
  "fneg (Fin a) = Fin (- a)"
| "fneg PInf = NInf"
| "fneg NInf = PInf"
| "fneg NaN = NaN"

fun fadd :: "npfloat \<Rightarrow> npfloat \<Rightarrow> npfloat" where
  "fadd (Fin a) (Fin b) = Fin (a + b)"
| "fadd NaN y = NaN"
| "fadd x NaN = NaN"
| "fadd PInf NInf = NaN"
| "fadd NInf PInf = NaN"
| "fadd PInf y = PInf"
| "fadd x PInf = PInf"
| "fadd NInf y = NInf"
| "fadd x NInf = NInf"

definition fsub :: "npfloat \<Rightarrow> npfloat \<Rightarrow> npfloat" where
  "fsub x y = fadd x (fneg y)"

fun fmul :: "npfloat \<Rightarrow> npfloat \<Rightarrow> npfloat" where
  "fmul (Fin a) (Fin b) = Fin (a * b)"
| "fmul NaN y = NaN"
| "fmul x NaN = NaN"
| "fmul (Fin a) y = (if a = 0 then NaN else if 0 < a then y else fneg y)"
| "fmul x (Fin b) = (if b = 0 then NaN else if 0 < b then x else fneg x)"
| "fmul PInf y = y"
| "fmul NInf y = fneg y"

fun fdiv :: "npfloat \<Rightarrow> npfloat \<Rightarrow> npfloat" where
  "fdiv (Fin a) (Fin b) =
     (if b = 0 then (if a = 0 then NaN else if 0 < a then PInf else NInf)
      else Fin (a / b))"
| "fdiv NaN y = NaN"
| "fdiv x NaN = NaN"
| "fdiv (Fin a) y = Fin 0"
| "fdiv x (Fin b) = (if 0 \<le> b then x else fneg x)"
| "fdiv x y = NaN"

fun fabs :: "npfloat \<Rightarrow> npfloat" where
  "fabs (Fin a) = Fin \<bar>a\<bar>"
| "fabs PInf = PInf"
| "fabs NInf = PInf"
| "fabs NaN = NaN"

fun fsqrt :: "npfloat \<Rightarrow> npfloat" where
  "fsqrt (Fin a) = (if 0 \<le> a then Fin (sqrt a) else NaN)"
| "fsqrt PInf = PInf"
| "fsqrt NInf = NaN"
| "fsqrt NaN = NaN"

text \<open>Comparisons: every comparison with \<open>NaN\<close> is false.\<close>

fun fgt :: "npfloat \<Rightarrow> npfloat \<Rightarrow> bool" where
  "fgt (Fin a) (Fin b) = (b < a)"
| "fgt NaN y = False"
| "fgt x NaN = False"
| "fgt PInf PInf = False"
| "fgt PInf y = True"
| "fgt NInf y = False"
| "fgt x NInf = True"
| "fgt x PInf = False"

definition flt :: "npfloat \<Rightarrow> npfloat \<Rightarrow> bool" where
  "flt x y = fgt y x"

definition fsum :: "npfloat list \<Rightarrow> npfloat" where
  "fsum xs = foldl fadd (Fin 0) xs"


subsection \<open>Floating-point arithmetic as a parameter\<close>

text \<open>
  The operations of one NumPy floating type: the cast to the type (\<open>astype\<close>), the four
  elementwise operations, and the conversion of a decimal literal. The reductions \<open>mean\<close> and
  \<open>std\<close> of NumPy are functions of the sequence of elements in index order; the order in which
  NumPy adds them up is not fixed here.
\<close>

record float_arith =
  fl_cast :: "npfloat \<Rightarrow> npfloat"
  fl_add :: "npfloat \<Rightarrow> npfloat \<Rightarrow> npfloat"
  fl_sub :: "npfloat \<Rightarrow> npfloat \<Rightarrow> npfloat"
  fl_mul :: "npfloat \<Rightarrow> npfloat \<Rightarrow> npfloat"
  fl_div :: "npfloat \<Rightarrow> npfloat \<Rightarrow> npfloat"
  fl_lit :: "real \<Rightarrow> npfloat"

record reductions =
  fl_mean :: "npfloat list \<Rightarrow> npfloat"
  fl_std :: "npfloat list \<Rightarrow> npfloat"

text \<open>
  The arithmetic of a run: float32 for the pixel arrays, float64 for the index arrays and
  the percentages, and the arithmetic of the threshold, in which a Python float and NumPy
  float32 scalars are combined and the result is converted to the type in which it is
  compared with the float32 magnitudes (float32 or float64, depending on the NumPy version).
\<close>

record numerics =
  f32 :: float_arith
  red32 :: reductions
  f64 :: float_arith
  scalar_arith :: float_arith

text \<open>Arithmetic without rounding and without overflow.\<close>

definition exact_arith :: float_arith where
  "exact_arith =
     \<lparr>fl_cast = (\<lambda>x. x), fl_add = fadd, fl_sub = fsub, fl_mul = fmul, fl_div = fdiv,
      fl_lit = Fin\<rparr>"

definition exact_mean :: "npfloat list \<Rightarrow> npfloat" where
  "exact_mean xs = fdiv (fsum xs) (Fin (real (length xs)))"

definition exact_std :: "npfloat list \<Rightarrow> npfloat" where
  "exact_std xs =
     (let arrmean = exact_mean xs;
          x = map (\<lambda>v. fsub v arrmean) xs;
          x2 = map (\<lambda>v. fmul v v) x
      in fsqrt (exact_mean x2))"

definition exact_reductions :: reductions where
  "exact_reductions = \<lparr>fl_mean = exact_mean, fl_std = exact_std\<rparr>"

definition exact_numerics :: numerics where
  "exact_numerics =
     \<lparr>f32 = exact_arith, red32 = exact_reductions, f64 = exact_arith,
      scalar_arith = exact_arith\<rparr>"

subsection \<open>Binary floating point with rounding to nearest\<close>









section \<open>Exceptions\<close>

datatype error =
    ValueError string
  | IndexError
  | AxisError
  | TypeError
  | FileError
  | RasterioIOError
  | OSError

definition ebind :: "error + 'a \<Rightarrow> ('a \<Rightarrow> error + 'b) \<Rightarrow> error + 'b" where
  "ebind r f = (case r of Inl e \<Rightarrow> Inl e | Inr v \<Rightarrow> f v)"

section \<open>Arrays\<close>

text \<open>
  A NumPy array: its shape and its elements, addressed by a multi-index. Only the indices
  within the shape are meaningful.
\<close>

datatype 'a ndarray = NDArray (shape: "nat list") (elem: "nat list \<Rightarrow> 'a")

definition ndim :: "'a ndarray \<Rightarrow> nat" where
  "ndim a = length (shape a)"

definition np_size :: "'a ndarray \<Rightarrow> nat" where
  "np_size a = prod_list (shape a)"

text \<open>All multi-indices of a shape, in row-major order.\<close>

fun indices :: "nat list \<Rightarrow> nat list list" where
  "indices [] = [[]]"
| "indices (n # ns) = concat (map (\<lambda>i. map ((#) i) (indices ns)) [0..<n])"

definition np_tolist :: "'a ndarray \<Rightarrow> 'a list" where
  "np_tolist a = map (elem a) (indices (shape a))"

definition np_map :: "('a \<Rightarrow> 'b) \<Rightarrow> 'a ndarray \<Rightarrow> 'b ndarray" where
  "np_map f a = NDArray (shape a) (\<lambda>idx. f (elem a idx))"

text \<open>
  Broadcasting of two shapes, aligned at the last axis (here on the reversed shapes): two
  axis lengths are compatible when they are equal or one of them is 1.
\<close>

fun bshape_rev :: "nat list \<Rightarrow> nat list \<Rightarrow> nat list option" where
  "bshape_rev [] ys = Some ys"
| "bshape_rev (x # xs) [] = Some (x # xs)"
| "bshape_rev (x # xs) (y # ys) =
     (if x = y \<or> y = 1 then map_option ((#) x) (bshape_rev xs ys)
      else if x = 1 then map_option ((#) y) (bshape_rev xs ys)
      else None)"

definition broadcast_shapes :: "nat list \<Rightarrow> nat list \<Rightarrow> nat list option" where
  "broadcast_shapes s t = map_option rev (bshape_rev (rev s) (rev t))"

text \<open>The index into an operand of shape \<open>s\<close> that the result's index \<open>idx\<close> reads.\<close>

definition bcast_index :: "nat list \<Rightarrow> nat list \<Rightarrow> nat list" where
  "bcast_index s idx =
     map2 (\<lambda>d i. if d = 1 then 0 else i) s (drop (length idx - length s) idx)"

definition np_binop ::
  "('a \<Rightarrow> 'b \<Rightarrow> 'c) \<Rightarrow> 'a ndarray \<Rightarrow> 'b ndarray \<Rightarrow> error + 'c ndarray" where
  "np_binop f a b =
     (case broadcast_shapes (shape a) (shape b) of
        None \<Rightarrow> Inl (ValueError ''operands could not be broadcast together'')
      | Some s \<Rightarrow>
          Inr (NDArray s (\<lambda>idx. f (elem a (bcast_index (shape a) idx))
                                   (elem b (bcast_index (shape b) idx)))))"

text \<open>
  The cast in exact arithmetic: the values are kept. This is also \<open>arr.astype(float)\<close> on the
  8-bit channels of an RGB image, whose values from 0 to 255 are float64 numbers.
\<close>

definition astype_float :: "npfloat ndarray \<Rightarrow> npfloat ndarray" where
  "astype_float a = a"

section \<open>Index Calculator\<close>

text \<open>The decimal literal \<open>1e-10\<close>.\<close>

definition epsilon :: real where
  "epsilon = 1 / 10 ^ 10"

text \<open>\<open>denominator[denominator == 0] = 1e-10\<close>\<close>

definition guard_zero_fl :: "float_arith \<Rightarrow> npfloat ndarray \<Rightarrow> npfloat ndarray" where
  "guard_zero_fl A d = np_map (\<lambda>x. if x = Fin 0 then fl_lit A epsilon else x) d"

text \<open>
  The sum of two arrays without axes is a NumPy scalar, on which the item assignment of the
  guard raises \<open>TypeError\<close>.
\<close>

definition calculate_ndvi_fl ::
  "float_arith \<Rightarrow> npfloat ndarray \<Rightarrow> npfloat ndarray \<Rightarrow> error + npfloat ndarray" where
  "calculate_ndvi_fl A nir_band red_band =
     (let nir = np_map (fl_cast A) nir_band;
          red = np_map (fl_cast A) red_band
      in ebind (np_binop (fl_add A) nir red) (\<lambda>denominator0.
           if shape denominator0 = [] then Inl TypeError
           else
             let denominator = guard_zero_fl A denominator0
             in ebind (np_binop (fl_sub A) nir red) (\<lambda>numerator.
                  np_binop (fl_div A) numerator denominator)))"

definition calculate_ndbi_fl ::
  "float_arith \<Rightarrow> npfloat ndarray \<Rightarrow> npfloat ndarray \<Rightarrow> error + npfloat ndarray" where
  "calculate_ndbi_fl A swir_band nir_band =
     (let swir = np_map (fl_cast A) swir_band;
          nir = np_map (fl_cast A) nir_band
      in ebind (np_binop (fl_add A) swir nir) (\<lambda>denominator0.
           if shape denominator0 = [] then Inl TypeError
           else
             let denominator = guard_zero_fl A denominator0
             in ebind (np_binop (fl_sub A) swir nir) (\<lambda>numerator.
                  np_binop (fl_div A) numerator denominator)))"

text \<open>
  The two functions in exact arithmetic, for the properties of the reports that do not
  depend on the rounding.
\<close>

definition guard_zero :: "npfloat ndarray \<Rightarrow> npfloat ndarray" where
  "guard_zero d = guard_zero_fl exact_arith d"

definition calculate_ndvi ::
  "npfloat ndarray \<Rightarrow> npfloat ndarray \<Rightarrow> error + npfloat ndarray" where
  "calculate_ndvi nir_band red_band = calculate_ndvi_fl exact_arith nir_band red_band"

definition calculate_ndbi ::
  "npfloat ndarray \<Rightarrow> npfloat ndarray \<Rightarrow> error + npfloat ndarray" where
  "calculate_ndbi swir_band nir_band = calculate_ndbi_fl exact_arith swir_band nir_band"

section \<open>Further array operations\<close>

text \<open>\<open>np.transpose(arr, (1, 2, 0))\<close>: fails unless the array has three axes.\<close>

definition np_transpose_120 :: "'a ndarray \<Rightarrow> error + 'a ndarray" where
  "np_transpose_120 a =
     (case shape a of
        [s0, s1, s2] \<Rightarrow>
          Inr (NDArray [s1, s2, s0] (\<lambda>idx. elem a [idx ! 2, idx ! 0, idx ! 1]))
      | _ \<Rightarrow> Inl (ValueError ''axes do not match array''))"

text \<open>\<open>arr[i]\<close> for a non-negative integer \<open>i\<close>: the sub-array at position \<open>i\<close> of axis 0.\<close>

definition np_getitem :: "'a ndarray \<Rightarrow> nat \<Rightarrow> error + 'a ndarray" where
  "np_getitem a i =
     (case shape a of
        [] \<Rightarrow> Inl IndexError
      | n # s \<Rightarrow> if i < n then Inr (NDArray s (\<lambda>idx. elem a (i # idx))) else Inl IndexError)"

text \<open>\<open>arr[:, :, c]\<close>: needs at least three axes and \<open>c\<close> within the third one.\<close>

definition np_getitem_axis2 :: "'a ndarray \<Rightarrow> nat \<Rightarrow> error + 'a ndarray" where
  "np_getitem_axis2 a c =
     (case shape a of
        s0 # s1 # s2 # s \<Rightarrow>
          if c < s2
          then Inr (NDArray (s0 # s1 # s)
                 (\<lambda>idx. elem a (take 2 idx @ c # drop 2 idx)))
          else Inl IndexError
      | _ \<Rightarrow> Inl IndexError)"

text \<open>\<open>arr.shape[0]\<close>\<close>

definition shape0 :: "'a ndarray \<Rightarrow> error + nat" where
  "shape0 a = (case shape a of [] \<Rightarrow> Inl IndexError | n # s \<Rightarrow> Inr n)"

text \<open>
  \<open>arr.mean(axis=-1)\<close> in exact arithmetic; the mean of an empty axis is \<open>0 / 0\<close>.
\<close>

definition np_mean_last :: "npfloat ndarray \<Rightarrow> error + npfloat ndarray" where
  "np_mean_last a =
     (if shape a = [] then Inl AxisError
      else
        (let n = last (shape a)
         in Inr (NDArray (butlast (shape a))
              (\<lambda>idx. fdiv (fsum (map (\<lambda>j. elem a (idx @ [j])) [0..<n]))
                           (Fin (real n))))))"

text \<open>\<open>arr.mean(axis=-1)\<close> and \<open>np.mean(arr, axis=0)\<close> with NumPy's reduction.\<close>

definition np_mean_last_fl :: "reductions \<Rightarrow> npfloat ndarray \<Rightarrow> error + npfloat ndarray" where
  "np_mean_last_fl R a =
     (if shape a = [] then Inl AxisError
      else Inr (NDArray (butlast (shape a))
             (\<lambda>idx. fl_mean R (map (\<lambda>j. elem a (idx @ [j])) [0..<last (shape a)]))))"

definition np_mean_axis0_fl :: "reductions \<Rightarrow> npfloat ndarray \<Rightarrow> error + npfloat ndarray" where
  "np_mean_axis0_fl R a =
     (case shape a of
        [] \<Rightarrow> Inl AxisError
      | n # s \<Rightarrow> Inr (NDArray s (\<lambda>idx. fl_mean R (map (\<lambda>j. elem a (j # idx)) [0..<n]))))"

text \<open>\<open>arr.mean()\<close> over all elements.\<close>

definition np_mean :: "npfloat ndarray \<Rightarrow> npfloat" where
  "np_mean a = fdiv (fsum (np_tolist a)) (Fin (real (np_size a)))"

text \<open>
  \<open>arr.std()\<close>: the population standard deviation, computed as NumPy does: subtract the
  mean, multiply each deviation by itself, take the mean, take the square root.
\<close>

definition np_std :: "npfloat ndarray \<Rightarrow> npfloat" where
  "np_std a =
     (let arrmean = np_mean a;
          x = np_map (\<lambda>v. fsub v arrmean) a;
          x2 = np_map (\<lambda>v. fmul v v) x
      in fsqrt (np_mean x2))"

text \<open>\<open>np.sum\<close> of a boolean array: the number of true elements.\<close>

definition np_count_true :: "bool ndarray \<Rightarrow> nat" where
  "np_count_true c = length (filter (\<lambda>b. b) (np_tolist c))"

section \<open>Change Map Renderer\<close>

text \<open>
  The file system and the plotting library are parameters: whether a directory can be
  created and whether the figure can be written. What is kept of the rendering is the
  per-pixel map that is drawn (before its rescaling to 0..255) or the exception that the
  function catches and prints.
\<close>

record io_env =
  makedirs_ok :: "string \<Rightarrow> bool"
  savefig_ok :: "string \<Rightarrow> bool"
  rasterio_read :: "string \<Rightarrow> error + npfloat ndarray"
  pil_open_rgb :: "string \<Rightarrow> error + npfloat ndarray"

datatype render_outcome = MapSaved "npfloat ndarray" | MapError error

text \<open>
  \<open>os.path.dirname\<close>: the path up to its last slash, without trailing slashes unless it
  consists of slashes only.
\<close>

definition dirname :: "string \<Rightarrow> string" where
  "dirname p =
     (let head = rev (dropWhile (\<lambda>c. c \<noteq> CHR ''/'') (rev p))
      in if head \<noteq> [] \<and> \<not> list_all (\<lambda>c. c = CHR ''/'') head
         then rev (dropWhile (\<lambda>c. c = CHR ''/'') (rev head))
         else head)"

text \<open>\<open>os.makedirs\<close> of the empty path always raises.\<close>

definition save_change_map ::
  "numerics \<Rightarrow> io_env \<Rightarrow> npfloat ndarray \<Rightarrow> npfloat ndarray \<Rightarrow> string \<Rightarrow> render_outcome" where
  "save_change_map N env before after out_path =
     (case
        (if dirname out_path = [] \<or> \<not> makedirs_ok env (dirname out_path) then Inl OSError
         else if shape before \<noteq> shape after
           then Inl (ValueError ''Before and after images must have the same shape'')
         else ebind
           (if ndim before = 3 \<and> shape before ! 0 \<le> 5
              then ebind (np_binop (fl_sub (f32 N)) (np_map (fl_cast (f32 N)) before)
                            (np_map (fl_cast (f32 N)) after))
                     (\<lambda>d. np_mean_axis0_fl (red32 N) (np_map fabs d))
            else if ndim before = 3 \<and> shape before ! 2 \<le> 5
              then ebind (np_binop (fl_sub (f32 N)) (np_map (fl_cast (f32 N)) before)
                            (np_map (fl_cast (f32 N)) after))
                     (\<lambda>d. np_mean_last_fl (red32 N) (np_map fabs d))
            else Inl (ValueError ''Unexpected image shape for change map visualization''))
           (\<lambda>diff. if savefig_ok env out_path then Inr diff else Inl OSError))
      of Inl e \<Rightarrow> MapError e
       | Inr diff \<Rightarrow> MapSaved diff)"

section \<open>Pixel Change Detector\<close>

text \<open>
  Lines 85 to 96 of the function: the computation on the arrays once they are taken to be
  pixel-major. The arrays are cast to float32 and subtracted in float32, the mean over the
  bands, the mean and the standard deviation are NumPy's float32 reductions, and the
  percentage is computed in float64.
\<close>

definition pixel_change_core_fl ::
  "numerics \<Rightarrow> npfloat ndarray \<Rightarrow> npfloat ndarray \<Rightarrow> real \<Rightarrow> error + npfloat" where
  "pixel_change_core_fl N before_arr after_arr threshold_factor =
     (let before_f = np_map (fl_cast (f32 N)) before_arr;
          after_f = np_map (fl_cast (f32 N)) after_arr
      in ebind (np_binop (fl_sub (f32 N)) after_f before_f) (\<lambda>d.
           let diff = np_map fabs d
           in ebind (np_mean_last_fl (red32 N) diff) (\<lambda>diff_mag.
                let thr = fl_add (scalar_arith N) (fl_mean (red32 N) (np_tolist diff_mag))
                            (fl_mul (scalar_arith N) (Fin threshold_factor)
                               (fl_std (red32 N) (np_tolist diff_mag)));
                    changed = np_map (\<lambda>v. fgt v thr) diff_mag;
                    pct = fl_mul (f64 N)
                            (fl_div (f64 N) (Fin (real (np_count_true changed)))
                                            (Fin (real (np_size changed))))
                            (Fin 100)
                in Inr pct)))"

definition calculate_pixel_change_percentage_fl ::
  "numerics \<Rightarrow> io_env \<Rightarrow> npfloat ndarray \<Rightarrow> npfloat ndarray \<Rightarrow> real \<Rightarrow> string option \<Rightarrow>
   error + npfloat" where
  "calculate_pixel_change_percentage_fl N env before_arr after_arr threshold_factor
     change_map_path =
     ebind
       (if ndim before_arr = 3 \<and> shape before_arr ! 0 \<le> 5
        then ebind (np_transpose_120 before_arr) (\<lambda>b.
               ebind (np_transpose_120 after_arr) (\<lambda>a. Inr (b, a)))
        else Inr (before_arr, after_arr))
       (\<lambda>(before_arr, after_arr).
          ebind (pixel_change_core_fl N before_arr after_arr threshold_factor) (\<lambda>pct.
            case change_map_path of
              None \<Rightarrow> Inr pct
            | Some p \<Rightarrow>
                (let printed = save_change_map N env before_arr after_arr p in Inr pct)))"

text \<open>
  The detector in exact arithmetic, for the properties that do not depend on the rounding
  and for inputs on which float32 arithmetic is exact.
\<close>

definition pixel_change_core :: "npfloat ndarray \<Rightarrow> npfloat ndarray \<Rightarrow> real \<Rightarrow> error + npfloat" where
  "pixel_change_core before_arr after_arr threshold_factor =
     pixel_change_core_fl exact_numerics before_arr after_arr threshold_factor"

definition calculate_pixel_change_percentage ::
  "io_env \<Rightarrow> npfloat ndarray \<Rightarrow> npfloat ndarray \<Rightarrow> real \<Rightarrow> string option \<Rightarrow> error + npfloat" where
  "calculate_pixel_change_percentage env before_arr after_arr threshold_factor change_map_path =
     calculate_pixel_change_percentage_fl exact_numerics env before_arr after_arr
       threshold_factor change_map_path"

section \<open>Reports\<close>

text \<open>
  A report is a Python dictionary with string keys; insertion order is kept. Assigning to a
  key replaces the value in place or appends the key (\<open>AList.update\<close>).
\<close>

datatype pyval =
    PyFloat npfloat
  | PyInt int
  | PyStr string
  | PyDict "(string \<times> pyval) list"

type_synonym report = "(string \<times> pyval) list"

definition dict_get :: "report \<Rightarrow> string \<Rightarrow> pyval option" where
  "dict_get d k = map_of d k"

definition dict_set :: "report \<Rightarrow> string \<Rightarrow> pyval \<Rightarrow> report" where
  "dict_set d k v = AList.update k v d"

text \<open>Truthiness of a value, as in \<open>if changes["vegetation_changes"]:\<close>.\<close>

fun truthy :: "pyval option \<Rightarrow> bool" where
  "truthy (Some (PyDict d)) = (d \<noteq> [])"
| "truthy (Some (PyFloat x)) = (x \<noteq> Fin 0)"
| "truthy (Some (PyInt i)) = (i \<noteq> 0)"
| "truthy (Some (PyStr s)) = (s \<noteq> [])"
| "truthy None = False"

text \<open>\<open>d[k1][k2]\<close> read as a float; a missing key raises.\<close>

definition dict_get2 :: "report \<Rightarrow> string \<Rightarrow> string \<Rightarrow> error + npfloat" where
  "dict_get2 d k1 k2 =
     (case dict_get d k1 of
        Some (PyDict inner) \<Rightarrow>
          (case map_of inner k2 of Some (PyFloat x) \<Rightarrow> Inr x | _ \<Rightarrow> Inl IndexError)
      | _ \<Rightarrow> Inl IndexError)"

section \<open>Index Change Analyzer\<close>

definition count_where :: "(npfloat \<Rightarrow> bool) \<Rightarrow> npfloat ndarray \<Rightarrow> nat" where
  "count_where P a = np_count_true (np_map P a)"

text \<open>\<open>(count / total_pixels) * 100\<close> with a NumPy integer count and a Python integer total.\<close>

definition percentage :: "nat \<Rightarrow> nat \<Rightarrow> npfloat" where
  "percentage c n = fmul (fdiv (Fin (real c)) (Fin (real n))) (Fin 100)"

text \<open>The initial dictionary of \<open>analyze_satellite_changes\<close>.\<close>

definition initial_changes :: report where
  "initial_changes =
     [(''analysis_type'', PyStr ''satellite_indices''),
      (''vegetation_changes'', PyDict []),
      (''urban_changes'', PyDict []),
      (''total_change_percentage'', PyFloat (Fin 0))]"

text \<open>Lines 219 to 235: the vegetation block.\<close>

definition vegetation_step ::
  "report \<Rightarrow> npfloat ndarray option \<Rightarrow> npfloat ndarray option \<Rightarrow> error + report" where
  "vegetation_step changes before_ndvi after_ndvi =
     (case (before_ndvi, after_ndvi) of
        (Some b, Some a) \<Rightarrow>
          ebind (np_binop fsub a b) (\<lambda>ndvi_diff.
            let vegetation_loss = count_where (\<lambda>v. flt v (Fin (- (1 / 10)))) ndvi_diff;
                vegetation_gain = count_where (\<lambda>v. fgt v (Fin (1 / 10))) ndvi_diff;
                total_pixels = np_size ndvi_diff;
                vegetation_loss_pct = percentage vegetation_loss total_pixels;
                vegetation_gain_pct = percentage vegetation_gain total_pixels
            in Inr (dict_set changes ''vegetation_changes''
                 (PyDict
                   [(''loss_percentage'', PyFloat vegetation_loss_pct),
                    (''gain_percentage'', PyFloat vegetation_gain_pct),
                    (''net_change'', PyFloat (fsub vegetation_gain_pct vegetation_loss_pct)),
                    (''mean_ndvi_change'', PyFloat (np_mean ndvi_diff))])))
      | _ \<Rightarrow> Inr changes)"

text \<open>Lines 238 to 254: the urban block.\<close>

definition urban_step ::
  "report \<Rightarrow> npfloat ndarray option \<Rightarrow> npfloat ndarray option \<Rightarrow> error + report" where
  "urban_step changes before_ndbi after_ndbi =
     (case (before_ndbi, after_ndbi) of
        (Some b, Some a) \<Rightarrow>
          ebind (np_binop fsub a b) (\<lambda>ndbi_diff.
            let urban_growth = count_where (\<lambda>v. fgt v (Fin (1 / 10))) ndbi_diff;
                urban_decline = count_where (\<lambda>v. flt v (Fin (- (1 / 10)))) ndbi_diff;
                total_pixels = np_size ndbi_diff;
                urban_growth_pct = percentage urban_growth total_pixels;
                urban_decline_pct = percentage urban_decline total_pixels
            in Inr (dict_set changes ''urban_changes''
                 (PyDict
                   [(''growth_percentage'', PyFloat urban_growth_pct),
                    (''decline_percentage'', PyFloat urban_decline_pct),
                    (''net_change'', PyFloat (fsub urban_growth_pct urban_decline_pct)),
                    (''mean_ndbi_change'', PyFloat (np_mean ndbi_diff))])))
      | _ \<Rightarrow> Inr changes)"

text \<open>Lines 257 to 263: the aggregate of the index path.\<close>

definition total_step :: "report \<Rightarrow> error + report" where
  "total_step changes =
     ebind
       (if truthy (dict_get changes ''vegetation_changes'')
        then ebind (dict_get2 changes ''vegetation_changes'' ''loss_percentage'') (\<lambda>l.
             ebind (dict_get2 changes ''vegetation_changes'' ''gain_percentage'') (\<lambda>g.
               Inr (fadd (Fin 0) (fadd l g))))
        else Inr (Fin 0))
       (\<lambda>total_changes.
     ebind
       (if truthy (dict_get changes ''urban_changes'')
        then ebind (dict_get2 changes ''urban_changes'' ''growth_percentage'') (\<lambda>g.
             ebind (dict_get2 changes ''urban_changes'' ''decline_percentage'') (\<lambda>d.
               Inr (fadd total_changes (fadd g d))))
        else Inr total_changes)
       (\<lambda>total_changes.
          Inr (dict_set changes ''total_change_percentage'' (PyFloat total_changes))))"

definition analyze_satellite_changes ::
  "npfloat ndarray option \<Rightarrow> npfloat ndarray option \<Rightarrow>
   npfloat ndarray option \<Rightarrow> npfloat ndarray option \<Rightarrow> error + report" where
  "analyze_satellite_changes before_ndvi after_ndvi before_ndbi after_ndbi =
     ebind (vegetation_step initial_changes before_ndvi after_ndvi) (\<lambda>changes.
     ebind (urban_step changes before_ndbi after_ndbi) (\<lambda>changes.
       total_step changes))"

text \<open>An optional array that, when present, has at least one element.\<close>

definition nonempty_opt :: "npfloat ndarray option \<Rightarrow> bool" where
  "nonempty_opt x = (case x of None \<Rightarrow> True | Some a \<Rightarrow> 0 < np_size a)"

section \<open>Report Reconciler\<close>

text \<open>Lines 126 to 143 of \<open>process_geotiff\<close>: the index arrays, or \<open>None\<close> for each.\<close>

definition compute_indices ::
  "npfloat ndarray \<Rightarrow> npfloat ndarray \<Rightarrow>
   error + (npfloat ndarray option \<times> npfloat ndarray option \<times>
            npfloat ndarray option \<times> npfloat ndarray option)" where
  "compute_indices before_data after_data =
     ebind (shape0 before_data) (\<lambda>n.
       if 4 \<le> n then
         ebind (np_getitem before_data 3) (\<lambda>b3.
         ebind (np_getitem before_data 2) (\<lambda>b2.
         ebind (calculate_ndvi b3 b2) (\<lambda>before_ndvi.
         ebind (np_getitem after_data 3) (\<lambda>a3.
         ebind (np_getitem after_data 2) (\<lambda>a2.
         ebind (calculate_ndvi a3 a2) (\<lambda>after_ndvi.
           if 5 \<le> n then
             ebind (np_getitem before_data 4) (\<lambda>b4.
             ebind (np_getitem before_data 3) (\<lambda>b3'.
             ebind (calculate_ndbi b4 b3') (\<lambda>before_ndbi.
             ebind (np_getitem after_data 4) (\<lambda>a4.
             ebind (np_getitem after_data 3) (\<lambda>a3'.
             ebind (calculate_ndbi a4 a3') (\<lambda>after_ndbi.
               Inr (Some before_ndvi, Some after_ndvi, Some before_ndbi, Some after_ndbi)))))))
           else Inr (Some before_ndvi, Some after_ndvi, None, None)))))))
       else Inr (None, None, None, None))"

text \<open>\<open>changes.get("total_change_percentage", 0)\<close> read as a float.\<close>

definition get_total :: "report \<Rightarrow> npfloat" where
  "get_total changes =
     (case dict_get changes ''total_change_percentage'' of
        Some (PyFloat x) \<Rightarrow> x
      | Some (PyInt i) \<Rightarrow> Fin (real_of_int i)
      | _ \<Rightarrow> Fin 0)"

definition process_geotiff ::
  "io_env \<Rightarrow> npfloat ndarray \<Rightarrow> npfloat ndarray \<Rightarrow> string option \<Rightarrow> real \<Rightarrow> error + report" where
  "process_geotiff env before_data after_data change_map_path threshold_factor =
     ebind (compute_indices before_data after_data)
       (\<lambda>(before_ndvi, after_ndvi, before_ndbi, after_ndbi).
     ebind (analyze_satellite_changes before_ndvi after_ndvi before_ndbi after_ndbi)
       (\<lambda>changes.
     ebind (calculate_pixel_change_percentage env before_data after_data
              threshold_factor change_map_path)
       (\<lambda>pixel_change_pct.
          let changes = dict_set changes ''pixel_change_percentage'' (PyFloat pixel_change_pct)
          in if fgt pixel_change_pct (get_total changes)
             then Inr (dict_set changes ''total_change_percentage'' (PyFloat pixel_change_pct))
             else Inr changes)))"

section \<open>RGB Fallback Analyzer\<close>

text \<open>\<open>int(x)\<close> of a Python float: truncation; \<open>NaN\<close> and the infinities raise.\<close>

definition py_int :: "npfloat \<Rightarrow> error + int" where
  "py_int x =
     (case x of
        Fin a \<Rightarrow> Inr (if 0 \<le> a then \<lfloor>a\<rfloor> else \<lceil>a\<rceil>)
      | _ \<Rightarrow> Inl (ValueError ''cannot convert float to integer''))"

definition process_regular_image :: "io_env \<Rightarrow> string \<Rightarrow> string \<Rightarrow> error + report" where
  "process_regular_image env before_path after_path =
     ebind (pil_open_rgb env before_path) (\<lambda>before_arr.
     ebind (pil_open_rgb env after_path) (\<lambda>after_arr.
     ebind (np_binop fsub (astype_float after_arr) (astype_float before_arr)) (\<lambda>d.
       let diff = np_map fabs d;
           total_pixels = np_size diff div 3;
           significant_changes_10 = fdiv (Fin (real (count_where (\<lambda>v. fgt v (Fin 10)) diff))) (Fin 3);
           significant_changes = significant_changes_10;
           change_percentage = fmul (fdiv significant_changes (Fin (real total_pixels))) (Fin 100)
       in
       ebind (np_getitem_axis2 diff 0) (\<lambda>ch0.
       ebind (np_getitem_axis2 diff 1) (\<lambda>ch1.
       ebind (np_getitem_axis2 diff 2) (\<lambda>ch2.
         let red = percentage (count_where (\<lambda>v. fgt v (Fin 20)) ch0) total_pixels;
             green = percentage (count_where (\<lambda>v. fgt v (Fin 20)) ch1) total_pixels;
             blue = percentage (count_where (\<lambda>v. fgt v (Fin 20)) ch2) total_pixels;
             change_type =
               (if fgt green red \<and> fgt green blue then ''vegetation''
                else if fgt red green \<and> fgt red blue then ''urban''
                else ''unknown'')
         in
         ebind (py_int significant_changes) (\<lambda>sc.
           Inr [(''total_change_percentage'', PyFloat change_percentage),
                (''channel_changes'',
                   PyDict [(''red'', PyFloat red), (''green'', PyFloat green),
                           (''blue'', PyFloat blue)]),
                (''change_type'', PyStr change_type),
                (''total_pixels'', PyInt (int total_pixels)),
                (''significant_changes'', PyInt sc),
                (''analysis_type'', PyStr ''rgb_based''),
                (''pixel_change_percentage'', PyFloat change_percentage)])))))))"

section \<open>Calls\<close>

text \<open>
  Binding the arguments of a call to the parameters of a function without defaults,
  \<open>*args\<close> or \<open>**kwargs\<close>: too many positional arguments, a keyword that is no parameter
  (or is already bound by position) and a parameter left unbound each raise \<open>TypeError\<close>.
\<close>

datatype pyarg = ArgStr string | ArgOptStr "string option" | ArgFloat real

definition bind_arguments ::
  "string list \<Rightarrow> pyarg list \<Rightarrow> (string \<times> pyarg) list \<Rightarrow> error + (string \<times> pyarg) list" where
  "bind_arguments params args kwargs =
     (let rest = drop (length args) params
      in if list_ex (\<lambda>(k, v). k \<notin> set rest) kwargs then Inl TypeError
         else if length params < length args then Inl TypeError
         else if list_ex (\<lambda>p. p \<notin> set (map fst kwargs)) rest then Inl TypeError
         else Inr (zip params args @ kwargs))"

text \<open>A call of \<open>process_regular_image(before_path, after_path)\<close> as it is declared.\<close>

definition call_process_regular_image ::
  "io_env \<Rightarrow> pyarg list \<Rightarrow> (string \<times> pyarg) list \<Rightarrow> error + report" where
  "call_process_regular_image env args kwargs =
     ebind (bind_arguments [''before_path'', ''after_path''] args kwargs) (\<lambda>bound.
       case (map_of bound ''before_path'', map_of bound ''after_path'') of
         (Some (ArgStr before_path), Some (ArgStr after_path)) \<Rightarrow>
           process_regular_image env before_path after_path
       | _ \<Rightarrow> Inl TypeError)"

section \<open>Raster Loader and entry point\<close>

definition detect_changes ::
  "io_env \<Rightarrow> string \<Rightarrow> string \<Rightarrow> string option \<Rightarrow> real \<Rightarrow> error + report" where
  "detect_changes env before_path after_path change_map_path threshold_factor =
     (case
        ebind (rasterio_read env before_path) (\<lambda>before_data.
        ebind (rasterio_read env after_path) (\<lambda>after_data.
          process_geotiff env before_data after_data change_map_path threshold_factor))
      of
        Inl RasterioIOError \<Rightarrow>
          call_process_regular_image env
            [ArgStr before_path, ArgStr after_path, ArgOptStr change_map_path]
            [(''threshold_factor'', ArgFloat threshold_factor)]
      | r \<Rightarrow> r)"

section \<open>Array constructors and the specification's formulas\<close>

text \<open>\<open>np.full(shape, v)\<close>\<close>

definition np_full :: "nat list \<Rightarrow> 'a \<Rightarrow> 'a ndarray" where
  "np_full s v = NDArray s (\<lambda>idx. v)"

text \<open>\<open>np.array(xs)\<close> for a three-level nested list of numbers with rectangular shape.\<close>

definition np_array3 :: "real list list list \<Rightarrow> npfloat ndarray" where
  "np_array3 xs =
     NDArray [length xs, length (hd xs), length (hd (hd xs))]
       (\<lambda>idx. Fin (xs ! (idx ! 0) ! (idx ! 1) ! (idx ! 2)))"

text \<open>
  The index formula in the specification's words: the denominator is floored to
  \<open>epsilon\<close>, \<open>(a - b) / max (a + b) epsilon\<close>.
\<close>

definition normalized_difference_spec :: "real \<Rightarrow> real \<Rightarrow> real" where
  "normalized_difference_spec a b = (a - b) / max (a + b) epsilon"

text \<open>An environment in which no file can be read or written.\<close>

definition closed_env :: io_env where
  "closed_env =
     \<lparr>makedirs_ok = (\<lambda>p. False), savefig_ok = (\<lambda>p. False),
      rasterio_read = (\<lambda>p. Inl RasterioIOError), pil_open_rgb = (\<lambda>p. Inl FileError)\<rparr>"

text \<open>
  An environment in which every directory can be created, every figure can be saved and no
  image can be read.
\<close>

definition writable_env :: io_env where
  "writable_env =
     \<lparr>makedirs_ok = (\<lambda>p. True), savefig_ok = (\<lambda>p. True),
      rasterio_read = (\<lambda>p. Inl RasterioIOError), pil_open_rgb = (\<lambda>p. Inl FileError)\<rparr>"

text \<open>The report for a pair of three-band rasters of one pixel without any change.\<close>

definition three_band_report :: report where
  "three_band_report =
     [(''analysis_type'', PyStr ''satellite_indices''),
      (''vegetation_changes'', PyDict []),
      (''urban_changes'', PyDict []),
      (''total_change_percentage'', PyFloat (Fin 0)),
      (''pixel_change_percentage'', PyFloat (Fin 0))]"

text \<open>
  The percentage as a function of the flat list of the change magnitudes: their mean, their
  population standard deviation, and the share of magnitudes strictly above the threshold.
\<close>

definition pct_of_magnitudes :: "real list \<Rightarrow> real \<Rightarrow> real" where
  "pct_of_magnitudes xs k =
     (let n = real (length xs);
          m = sum_list xs / n;
          s = sqrt (sum_list (map (\<lambda>x. (x - m) * (x - m)) xs) / n)
      in real (length (filter (\<lambda>x. m + k * s < x) xs)) / n * 100)"

text \<open>
  The statistics that a block of \<open>analyze_satellite_changes\<close> leaves under a key: none, or a
  dictionary that starts with two finite percentages.
\<close>

definition stats_ok :: "pyval option \<Rightarrow> string \<Rightarrow> string \<Rightarrow> bool" where
  "stats_ok v k1 k2 =
     (v = Some (PyDict []) \<or>
      (\<exists>x y r. v = Some (PyDict ((k1, PyFloat (Fin x)) # (k2, PyFloat (Fin y)) # r))))"

text \<open>
  An environment in which no file is a raster that \<open>rasterio\<close> can read and every file is an
  image of one black pixel.
\<close>

definition rgb_only_env :: io_env where
  "rgb_only_env =
     \<lparr>makedirs_ok = (\<lambda>p. True), savefig_ok = (\<lambda>p. True),
      rasterio_read = (\<lambda>p. Inl RasterioIOError),
      pil_open_rgb = (\<lambda>p. Inr (np_full [1, 1, 3] (Fin 0)))\<rparr>"

text \<open>The report of the RGB Fallback Analyzer for two images of one black pixel.\<close>

definition rgb_report :: report where
  "rgb_report =
     [(''total_change_percentage'', PyFloat (Fin 0)),
      (''channel_changes'',
         PyDict [(''red'', PyFloat (Fin 0)), (''green'', PyFloat (Fin 0)),
                 (''blue'', PyFloat (Fin 0))]),
      (''change_type'', PyStr ''unknown''),
      (''total_pixels'', PyInt 1),
      (''significant_changes'', PyInt 0),
      (''analysis_type'', PyStr ''rgb_based''),
      (''pixel_change_percentage'', PyFloat (Fin 0))]"

text \<open>
  The report for a pair of four-band rasters of 1 by 2 pixels in which only the first band
  of one pixel changes, at the threshold factor 1/2.
\<close>

definition four_band_report :: report where
  "four_band_report =
     [(''analysis_type'', PyStr ''satellite_indices''),
      (''vegetation_changes'',
         PyDict [(''loss_percentage'', PyFloat (Fin 0)),
                 (''gain_percentage'', PyFloat (Fin 0)),
                 (''net_change'', PyFloat (Fin 0)),
                 (''mean_ndvi_change'', PyFloat (Fin 0))]),
      (''urban_changes'', PyDict []),
      (''total_change_percentage'', PyFloat (Fin 50)),
      (''pixel_change_percentage'', PyFloat (Fin 50))]"


text \<open>The band-major index that a pixel-major index \<open>[y, x, band]\<close> comes from.\<close>

definition to_band_major :: "nat list \<Rightarrow> nat list" where
  "to_band_major idx = [idx ! 2, idx ! 0, idx ! 1]"

text \<open>
  The Pixel Change Detector in the specification's words, for a pixel-major pair of
  \<open>H \<times> W\<close> pixels with \<open>B\<close> bands whose values are given by \<open>bf\<close> and \<open>af\<close>: the change
  magnitude of a pixel is the mean over the bands of the absolute differences, the
  threshold is the mean of the magnitudes plus \<open>k\<close> times their standard deviation, and the
  result is the number of pixels above the threshold, divided by the number of pixels,
  times 100.
\<close>

definition diff_magnitude_spec ::
  "(nat list \<Rightarrow> real) \<Rightarrow> (nat list \<Rightarrow> real) \<Rightarrow> nat \<Rightarrow> nat list \<Rightarrow> real" where
  "diff_magnitude_spec bf af B px = (\<Sum>c<B. \<bar>af (px @ [c]) - bf (px @ [c])\<bar>) / real B"

definition mean_spec :: "(nat list \<Rightarrow> real) \<Rightarrow> nat list set \<Rightarrow> real" where
  "mean_spec f P = (\<Sum>p\<in>P. f p) / real (card P)"

definition std_spec :: "(nat list \<Rightarrow> real) \<Rightarrow> nat list set \<Rightarrow> real" where
  "std_spec f P = sqrt ((\<Sum>p\<in>P. (f p - mean_spec f P)\<^sup>2) / real (card P))"

definition threshold_spec :: "(nat list \<Rightarrow> real) \<Rightarrow> nat list set \<Rightarrow> real \<Rightarrow> real" where
  "threshold_spec dm P k = mean_spec dm P + k * std_spec dm P"

definition pixel_change_spec ::
  "(nat list \<Rightarrow> real) \<Rightarrow> (nat list \<Rightarrow> real) \<Rightarrow> nat list \<Rightarrow> nat \<Rightarrow> real \<Rightarrow> real" where
  "pixel_change_spec bf af ps B k =
     (let P = set (indices ps);
          dm = diff_magnitude_spec bf af B
      in real (card {p \<in> P. threshold_spec dm P k < dm p}) / real (card P) * 100)"




section \<open>Basic facts about indices and broadcasting\<close>

lemma in_indices_iff: "idx \<in> set (indices s) \<longleftrightarrow> list_all2 (<) idx s"
proof (induction s arbitrary: idx)
  case Nil
  then show ?case by simp
next
  case (Cons n ns)
  show ?case
    by (cases idx) (auto simp: Cons.IH image_iff)
qed

lemma length_indices: "length (indices s) = prod_list s"
proof (induction s)
  case Nil
  then show ?case by simp
next
  case (Cons n ns)
  have "length (concat (map (\<lambda>i. map ((#) i) (indices ns)) [0..<n])) = n * length (indices ns)"
    by (induction n) simp_all
  with Cons show ?case by simp
qed

lemma bshape_rev_same: "bshape_rev xs xs = Some xs"
  by (induction xs) simp_all

lemma broadcast_shapes_same: "broadcast_shapes s s = Some s"
  by (simp add: broadcast_shapes_def bshape_rev_same)

lemma bcast_index_same_aux:
  "list_all2 (<) idx s \<Longrightarrow> map2 (\<lambda>d i. if d = Suc 0 then 0 else i) s idx = idx"
  by (induction idx s rule: list_all2_induct) auto

lemma bcast_index_id: "list_all2 (<) idx s \<Longrightarrow> bcast_index s idx = idx"
  by (simp add: bcast_index_def bcast_index_same_aux list_all2_lengthD)

lemma np_binop_same_shape:
  "shape a = shape b \<Longrightarrow>
   np_binop f a b = Inr (NDArray (shape a)
     (\<lambda>idx. f (elem a (bcast_index (shape a) idx)) (elem b (bcast_index (shape a) idx))))"
  by (simp add: np_binop_def broadcast_shapes_same)

lemma fsum_Fin_aux: "foldl fadd (Fin c) (map (\<lambda>x. Fin (g x)) xs) = Fin (c + sum_list (map g xs))"
  by (induction xs arbitrary: c) (simp_all add: add.assoc)

lemma fsum_Fin: "fsum (map (\<lambda>x. Fin (g x)) xs) = Fin (sum_list (map g xs))"
  by (simp add: fsum_def fsum_Fin_aux)

section \<open>The functions in exact arithmetic\<close>

lemma np_map_id: "np_map (\<lambda>x. x) a = a"
  by (cases a) (simp add: np_map_def)

lemma np_tolist_map: "np_tolist (np_map f a) = map f (np_tolist a)"
  by (simp add: np_tolist_def np_map_def del: indices.simps)

lemma np_size_tolist: "np_size a = length (np_tolist a)"
  by (simp add: np_size_def np_tolist_def length_indices del: indices.simps)

lemma exact_arith_sel:
  "fl_cast exact_arith = (\<lambda>x. x)" "fl_add exact_arith = fadd" "fl_sub exact_arith = fsub"
  "fl_mul exact_arith = fmul" "fl_div exact_arith = fdiv" "fl_lit exact_arith = Fin"
  by (simp_all add: exact_arith_def)

lemma exact_numerics_sel:
  "f32 exact_numerics = exact_arith" "f64 exact_numerics = exact_arith"
  "scalar_arith exact_numerics = exact_arith" "red32 exact_numerics = exact_reductions"
  by (simp_all add: exact_numerics_def)

lemma guard_zero_exact:
  "guard_zero d = np_map (\<lambda>x. if x = Fin 0 then Fin epsilon else x) d"
  unfolding guard_zero_def guard_zero_fl_def exact_arith_sel by (rule refl)

lemma calculate_ndvi_exact:
  "calculate_ndvi nir_band red_band =
     (let nir = astype_float nir_band;
          red = astype_float red_band
      in ebind (np_binop fadd nir red) (\<lambda>denominator0.
           if shape denominator0 = [] then Inl TypeError
           else
             let denominator = guard_zero denominator0
             in ebind (np_binop fsub nir red) (\<lambda>numerator.
                  np_binop fdiv numerator denominator)))"
  unfolding calculate_ndvi_def calculate_ndvi_fl_def guard_zero_def exact_arith_sel np_map_id
    astype_float_def
  by (rule refl)

lemma calculate_ndbi_exact:
  "calculate_ndbi swir_band nir_band =
     (let swir = astype_float swir_band;
          nir = astype_float nir_band
      in ebind (np_binop fadd swir nir) (\<lambda>denominator0.
           if shape denominator0 = [] then Inl TypeError
           else
             let denominator = guard_zero denominator0
             in ebind (np_binop fsub swir nir) (\<lambda>numerator.
                  np_binop fdiv numerator denominator)))"
  unfolding calculate_ndbi_def calculate_ndbi_fl_def guard_zero_def exact_arith_sel np_map_id
    astype_float_def
  by (rule refl)

lemma np_mean_last_exact: "np_mean_last_fl exact_reductions a = np_mean_last a"
  by (simp add: np_mean_last_fl_def np_mean_last_def exact_reductions_def exact_mean_def Let_def)

lemma np_mean_exact: "fl_mean exact_reductions (np_tolist a) = np_mean a"
  by (simp add: exact_reductions_def exact_mean_def np_mean_def np_size_tolist)

lemma np_std_exact: "fl_std exact_reductions (np_tolist a) = np_std a"
  by (simp add: exact_reductions_def exact_std_def exact_mean_def np_std_def np_mean_def
      np_size_tolist np_tolist_map Let_def)

lemma pixel_change_core_exact:
  "pixel_change_core before_arr after_arr threshold_factor =
     (let before_f = astype_float before_arr;
          after_f = astype_float after_arr
      in ebind (np_binop fsub after_f before_f) (\<lambda>d.
           let diff = np_map fabs d
           in ebind (np_mean_last diff) (\<lambda>diff_mag.
                let thr = fadd (np_mean diff_mag) (fmul (Fin threshold_factor) (np_std diff_mag));
                    changed = np_map (\<lambda>v. fgt v thr) diff_mag;
                    pct = fmul (fdiv (Fin (real (np_count_true changed)))
                                     (Fin (real (np_size changed))))
                               (Fin 100)
                in Inr pct)))"
proof -
  show ?thesis
    unfolding pixel_change_core_def pixel_change_core_fl_def exact_numerics_sel exact_arith_sel
      np_map_id np_mean_last_exact np_mean_exact np_std_exact astype_float_def
    by (rule refl)
qed

lemma calculate_pixel_change_percentage_exact:
  "calculate_pixel_change_percentage env before_arr after_arr threshold_factor change_map_path =
     ebind
       (if ndim before_arr = 3 \<and> shape before_arr ! 0 \<le> 5
        then ebind (np_transpose_120 before_arr) (\<lambda>b.
               ebind (np_transpose_120 after_arr) (\<lambda>a. Inr (b, a)))
        else Inr (before_arr, after_arr))
       (\<lambda>(before_arr, after_arr).
          ebind (pixel_change_core before_arr after_arr threshold_factor) (\<lambda>pct.
            case change_map_path of
              None \<Rightarrow> Inr pct
            | Some p \<Rightarrow>
                (let printed = save_change_map exact_numerics env before_arr after_arr p
                 in Inr pct)))"
  by (simp add: calculate_pixel_change_percentage_def calculate_pixel_change_percentage_fl_def
      pixel_change_core_def)

section \<open>Rounding to binary64\<close>





















section \<open>Properties of the Index Calculator\<close>

lemma index_elem_fl:
  assumes "shape x = shape y" and "shape x \<noteq> []" and "idx \<in> set (indices (shape x))"
  shows "\<exists>out. calculate_ndvi_fl A x y = Inr out \<and> shape out = shape x \<and>
           elem out idx =
             fl_div A (fl_sub A (fl_cast A (elem x idx)) (fl_cast A (elem y idx)))
               (if fl_add A (fl_cast A (elem x idx)) (fl_cast A (elem y idx)) = Fin 0
                then fl_lit A epsilon
                else fl_add A (fl_cast A (elem x idx)) (fl_cast A (elem y idx)))"
proof -
  have b: "bcast_index (shape y) idx = idx"
    using assms(1,3) by (simp add: bcast_index_id in_indices_iff del: indices.simps)
  have s: "shape (np_map (fl_cast A) x) = shape (np_map (fl_cast A) y)"
    using assms(1) by (simp add: np_map_def)
  show ?thesis
    using assms(1,2) b
    by (simp add: calculate_ndvi_fl_def np_binop_same_shape[OF s] np_binop_same_shape
        ebind_def guard_zero_fl_def np_map_def Let_def)
qed

lemma index_elem_ndbi_fl:
  assumes "shape x = shape y" and "shape x \<noteq> []" and "idx \<in> set (indices (shape x))"
  shows "\<exists>out. calculate_ndbi_fl A x y = Inr out \<and> shape out = shape x \<and>
           elem out idx =
             fl_div A (fl_sub A (fl_cast A (elem x idx)) (fl_cast A (elem y idx)))
               (if fl_add A (fl_cast A (elem x idx)) (fl_cast A (elem y idx)) = Fin 0
                then fl_lit A epsilon
                else fl_add A (fl_cast A (elem x idx)) (fl_cast A (elem y idx)))"
proof -
  have b: "bcast_index (shape y) idx = idx"
    using assms(1,3) by (simp add: bcast_index_id in_indices_iff del: indices.simps)
  have s: "shape (np_map (fl_cast A) x) = shape (np_map (fl_cast A) y)"
    using assms(1) by (simp add: np_map_def)
  show ?thesis
    using assms(1,2) b
    by (simp add: calculate_ndbi_fl_def np_binop_same_shape[OF s] np_binop_same_shape
        ebind_def guard_zero_fl_def np_map_def Let_def)
qed

text \<open>
  On two arrays without axes the item assignment of the guard raises \<open>TypeError\<close>.
\<close>

lemma index_scalar_type_error:
  assumes "shape x = []" and "shape y = []"
  shows "calculate_ndvi_fl A x y = Inl TypeError" and "calculate_ndbi_fl A x y = Inl TypeError"
  using assms
  by (simp_all add: calculate_ndvi_fl_def calculate_ndbi_fl_def np_binop_def
      broadcast_shapes_def np_map_def ebind_def)

text \<open>
  Claim C4, as the code has it. The statement holds for every floating-point arithmetic
  \<open>A\<close>, so also for the float64 arithmetic of NumPy. For two bands of the same shape with at
  least one axis, at every position, with \<open>p\<close> and \<open>q\<close> the values of the two inputs after the
  cast to float, \<open>calculate_ndvi\<close> and \<open>calculate_ndbi\<close> return the floating-point quotient of
  the floating-point difference \<open>p - q\<close> by \<open>d\<close>, where \<open>d\<close> is the float of the literal
  \<open>1e-10\<close> if the floating-point sum \<open>p + q\<close> is exactly zero and that sum otherwise: only an
  exactly zero denominator is replaced. This agrees with the specification's division by
  \<open>max (p + q) epsilon\<close> wherever the floating-point sum is zero or at least the float of
  \<open>1e-10\<close>.
\<close>

theorem index_guarded_formula:
  assumes "shape x = shape y" and "shape x \<noteq> []" and "idx \<in> set (indices (shape x))"
      and "p = fl_cast A (elem x idx)" and "q = fl_cast A (elem y idx)"
  shows "(\<exists>out. calculate_ndvi_fl A x y = Inr out \<and> shape out = shape x \<and>
            elem out idx =
              fl_div A (fl_sub A p q) (if fl_add A p q = Fin 0 then fl_lit A epsilon else fl_add A p q) \<and>
            (\<forall>s e. fl_add A p q = Fin s \<and> fl_lit A epsilon = Fin e \<and> 0 < e \<and> (s = 0 \<or> e \<le> s) \<longrightarrow>
               elem out idx = fl_div A (fl_sub A p q) (Fin (max s e)))) \<and>
         (\<exists>out. calculate_ndbi_fl A x y = Inr out \<and> shape out = shape x \<and>
            elem out idx =
              fl_div A (fl_sub A p q) (if fl_add A p q = Fin 0 then fl_lit A epsilon else fl_add A p q) \<and>
            (\<forall>s e. fl_add A p q = Fin s \<and> fl_lit A epsilon = Fin e \<and> 0 < e \<and> (s = 0 \<or> e \<le> s) \<longrightarrow>
               elem out idx = fl_div A (fl_sub A p q) (Fin (max s e))))"
proof -
  define den where
    "den = (if fl_add A p q = Fin 0 then fl_lit A epsilon else fl_add A p q)"
  have m: "den = Fin (max s e)"
    if "fl_add A p q = Fin s \<and> fl_lit A epsilon = Fin e \<and> 0 < e \<and> (s = 0 \<or> e \<le> s)" for s e
    using that by (auto simp: den_def max_def)
  obtain o1 where o1: "calculate_ndvi_fl A x y = Inr o1" "shape o1 = shape x"
      "elem o1 idx = fl_div A (fl_sub A p q) den"
    using index_elem_fl[OF assms(1,2,3), of A]
    unfolding assms(4)[symmetric] assms(5)[symmetric] den_def[symmetric] by blast
  obtain o2 where o2: "calculate_ndbi_fl A x y = Inr o2" "shape o2 = shape x"
      "elem o2 idx = fl_div A (fl_sub A p q) den"
    using index_elem_ndbi_fl[OF assms(1,2,3), of A]
    unfolding assms(4)[symmetric] assms(5)[symmetric] den_def[symmetric] by blast
  have a1: "\<forall>s e. fl_add A p q = Fin s \<and> fl_lit A epsilon = Fin e \<and> 0 < e \<and> (s = 0 \<or> e \<le> s) \<longrightarrow>
               elem o1 idx = fl_div A (fl_sub A p q) (Fin (max s e))"
    using m o1(3) by metis
  have a2: "\<forall>s e. fl_add A p q = Fin s \<and> fl_lit A epsilon = Fin e \<and> 0 < e \<and> (s = 0 \<or> e \<le> s) \<longrightarrow>
               elem o2 idx = fl_div A (fl_sub A p q) (Fin (max s e))"
    using m o2(3) by metis
  show ?thesis
    unfolding den_def[symmetric]
    using o1 o2 a1 a2 by blast
qed

theorem index_guarded_formula_witness:
  "(\<exists>out. calculate_ndvi_fl exact_arith (np_full [1, 1] (Fin 1)) (np_full [1, 1] (Fin (- 3)))
            = Inr out \<and> elem out [0, 0] = Fin (- 2)) \<and>
   (\<exists>out. calculate_ndbi_fl exact_arith (np_full [1, 1] (Fin 1)) (np_full [1, 1] (Fin 1))
            = Inr out \<and> elem out [0, 0] = Fin (0 / max 2 epsilon))"
  using index_guarded_formula[where x = "np_full [1, 1] (Fin 1)" and y = "np_full [1, 1] (Fin (- 3))"
      and idx = "[0, 0]" and A = exact_arith and p = "Fin 1" and q = "Fin (- 3)"]
    index_guarded_formula[where x = "np_full [1, 1] (Fin 1)" and y = "np_full [1, 1] (Fin 1)"
      and idx = "[0, 0]" and A = exact_arith and p = "Fin 1" and q = "Fin 1"]
  by (auto simp: np_full_def exact_arith_sel epsilon_def fsub_def)

text \<open>
  Claim C4 as stated fails where the denominator is negative: for \<open>ir = 1\<close> and
  \<open>red = - 3\<close> the code returns \<open>4 / (- 2) = - 2\<close>, while flooring the denominator to
  \<open>epsilon\<close> would give \<open>4 / epsilon\<close>. All the numbers involved are small integers, on which
  float64 arithmetic is exact.
\<close>

theorem index_max_formula_counterexample:
  "map_sum id np_tolist (calculate_ndvi (np_full [1, 1] (Fin 1)) (np_full [1, 1] (Fin (- 3))))
     = Inr [Fin (- 2)] \<and>
   Fin (- 2) \<noteq> Fin (normalized_difference_spec 1 (- 3))"
  by (simp add: calculate_ndvi_exact astype_float_def np_binop_def broadcast_shapes_def ebind_def
      guard_zero_exact np_map_def np_full_def np_tolist_def bcast_index_def fsub_def
      normalized_difference_spec_def epsilon_def)







section \<open>Arrays of finite values\<close>

lemma distinct_indices: "distinct (indices s)"
proof (induction s)
  case Nil
  then show ?case by simp
next
  case (Cons n ns)
  have "distinct (concat (map (\<lambda>i. map ((#) i) (indices ns)) [0..<m]))" for m
  proof (induction m)
    case 0
    then show ?case by simp
  next
    case (Suc m)
    have "distinct (map ((#) m) (indices ns))"
      using Cons by (simp add: distinct_map)
    with Suc show ?case by auto
  qed
  then show ?case by simp
qed

lemma card_indices: "card (set (indices s)) = prod_list s"
  using distinct_card[OF distinct_indices, of s] by (simp add: length_indices)

lemma sum_list_indices: "sum_list (map f (indices s)) = sum f (set (indices s))"
  by (simp add: sum_list_distinct_conv_sum_set distinct_indices)

lemma count_indices: "length (filter P (indices s)) = card {p \<in> set (indices s). P p}"
  by (simp add: distinct_length_filter distinct_indices Int_def conj_commute)

lemma tolist_fin:
  assumes "\<And>idx. idx \<in> set (indices (shape a)) \<Longrightarrow> elem a idx = Fin (f idx)"
  shows "np_tolist a = map (\<lambda>i. Fin (f i)) (indices (shape a))"
  by (simp add: np_tolist_def assms cong: map_cong)

lemma np_mean_fin:
  assumes "\<And>idx. idx \<in> set (indices (shape a)) \<Longrightarrow> elem a idx = Fin (f idx)"
      and "0 < prod_list (shape a)"
  shows "np_mean a = Fin (sum_list (map f (indices (shape a))) / real (prod_list (shape a)))"
  using assms(2) by (simp add: np_mean_def tolist_fin[OF assms(1)] fsum_Fin np_size_def)

lemma np_std_fin:
  assumes "\<And>idx. idx \<in> set (indices (shape a)) \<Longrightarrow> elem a idx = Fin (f idx)"
      and "0 < prod_list (shape a)"
      and "m = sum_list (map f (indices (shape a))) / real (prod_list (shape a))"
  shows "np_std a = Fin (sqrt (sum_list (map (\<lambda>i. (f i - m) * (f i - m)) (indices (shape a)))
                               / real (prod_list (shape a))))"
proof -
  have mean: "np_mean a = Fin m"
    using np_mean_fin[OF assms(1,2)] assms(3) by simp
  let ?x2 = "np_map (\<lambda>v. fmul v v) (np_map (\<lambda>v. fsub v (Fin m)) a)"
  have sh: "shape ?x2 = shape a" by (simp add: np_map_def)
  have el: "\<And>idx. idx \<in> set (indices (shape ?x2)) \<Longrightarrow>
              elem ?x2 idx = Fin ((f idx - m) * (f idx - m))"
    using assms(1) by (simp add: np_map_def fsub_def)
  have "np_mean ?x2 = Fin (sum_list (map (\<lambda>i. (f i - m) * (f i - m)) (indices (shape a)))
                               / real (prod_list (shape a)))"
    using np_mean_fin[of ?x2 "\<lambda>i. (f i - m) * (f i - m)", OF el] assms(2) sh by simp
  moreover have "0 \<le> sum_list (map (\<lambda>i. (f i - m) * (f i - m)) (indices (shape a)))
                               / real (prod_list (shape a))"
    by (intro divide_nonneg_nonneg sum_list_nonneg) auto
  ultimately show ?thesis
    by (simp add: np_std_def mean Let_def)
qed

lemma in_indices_snoc:
  "px \<in> set (indices ps) \<Longrightarrow> j < n \<Longrightarrow> px @ [j] \<in> set (indices (ps @ [n]))"
  by (simp add: in_indices_iff list_all2_appendI del: indices.simps)

lemma np_mean_last_fin:
  assumes "shape a = ps @ [n]" and "0 < n"
      and "\<And>idx. idx \<in> set (indices (shape a)) \<Longrightarrow> elem a idx = Fin (f idx)"
  shows "\<exists>out. np_mean_last a = Inr out \<and> shape out = ps \<and>
           (\<forall>px\<in>set (indices ps).
              elem out px = Fin (sum_list (map (\<lambda>j. f (px @ [j])) [0..<n]) / real n))"
proof -
  have el: "fsum (map (\<lambda>j. elem a (px @ [j])) [0..<n])
            = Fin (sum_list (map (\<lambda>j. f (px @ [j])) [0..<n]))"
    if "px \<in> set (indices ps)" for px
  proof -
    have "map (\<lambda>j. elem a (px @ [j])) [0..<n] = map (\<lambda>j. Fin (f (px @ [j]))) [0..<n]"
      using assms(1,3) in_indices_snoc[OF that, of _ n] by (auto simp del: indices.simps)
    then show ?thesis by (simp only: fsum_Fin)
  qed
  show ?thesis
    using assms(1,2) by (simp add: np_mean_last_def Let_def el del: indices.simps)
qed

section \<open>The Pixel Change Detector against the specification's formula\<close>

lemma count_true_map:
  assumes "\<And>idx. idx \<in> set (indices (shape a)) \<Longrightarrow> P (elem a idx) = Q idx"
  shows "np_count_true (np_map P a) = length (filter Q (indices (shape a)))"
proof -
  have "filter (\<lambda>b. b) (map (\<lambda>idx. P (elem a idx)) (indices (shape a)))
        = map (\<lambda>idx. P (elem a idx)) (filter Q (indices (shape a)))"
    using assms by (simp add: filter_map comp_def cong: filter_cong del: indices.simps)
  then show ?thesis
    by (simp add: np_count_true_def np_map_def np_tolist_def del: indices.simps)
qed

lemma diff_magnitude_list:
  "sum_list (map (\<lambda>j. \<bar>af (px @ [j]) - bf (px @ [j])\<bar>) [0..<B]) / real B
   = diff_magnitude_spec bf af B px"
  by (simp add: diff_magnitude_spec_def interv_sum_list_conv_sum_set_nat atLeast0LessThan)

lemma pixel_change_core_fin:
  assumes sb: "shape before = ps @ [B]" and sa: "shape after = ps @ [B]"
      and B: "0 < B" and P: "0 < prod_list ps"
      and fb: "\<And>idx. idx \<in> set (indices (ps @ [B])) \<Longrightarrow> elem before idx = Fin (bf idx)"
      and fa: "\<And>idx. idx \<in> set (indices (ps @ [B])) \<Longrightarrow> elem after idx = Fin (af idx)"
  shows "pixel_change_core before after k = Inr (Fin (pixel_change_spec bf af ps B k))"
proof -
  define d where "d = NDArray (ps @ [B])
     (\<lambda>idx. fsub (elem after (bcast_index (ps @ [B]) idx)) (elem before (bcast_index (ps @ [B]) idx)))"
  define diff where "diff = np_map fabs d"
  define dm where "dm = diff_magnitude_spec bf af B"
  define Pset where "Pset = set (indices ps)"
  have sub: "np_binop fsub after before = Inr d"
    using np_binop_same_shape[of after before fsub] sa sb by (simp add: d_def)
  have sh_diff: "shape diff = ps @ [B]"
    by (simp add: diff_def d_def np_map_def)
  have el_diff: "elem diff idx = Fin \<bar>af idx - bf idx\<bar>"
    if "idx \<in> set (indices (shape diff))" for idx
  proof -
    have i: "idx \<in> set (indices (ps @ [B]))" using that sh_diff by simp
    then have "bcast_index (ps @ [B]) idx = idx"
      by (simp add: bcast_index_id in_indices_iff del: indices.simps)
    then show ?thesis
      using fa[OF i] fb[OF i] by (simp add: diff_def d_def np_map_def fsub_def)
  qed
  obtain diff_mag where ml: "np_mean_last diff = Inr diff_mag"
    and sh_dm: "shape diff_mag = ps"
    and el_dm0: "\<forall>px\<in>set (indices ps).
      elem diff_mag px = Fin (sum_list (map (\<lambda>j. \<bar>af (px @ [j]) - bf (px @ [j])\<bar>) [0..<B]) / real B)"
    using np_mean_last_fin[OF sh_diff B el_diff] by blast
  have el_dm: "elem diff_mag px = Fin (dm px)" if "px \<in> set (indices (shape diff_mag))" for px
    using el_dm0 that sh_dm by (simp add: dm_def diff_magnitude_list del: indices.simps)
  have P': "0 < prod_list (shape diff_mag)" using P sh_dm by simp
  have mean: "np_mean diff_mag = Fin (mean_spec dm Pset)"
    using np_mean_fin[OF el_dm P']
    by (simp add: sh_dm mean_spec_def Pset_def sum_list_indices card_indices del: indices.simps)
  have std: "np_std diff_mag = Fin (std_spec dm Pset)"
    using np_std_fin[OF el_dm P', of "mean_spec dm Pset"]
    by (simp add: sh_dm mean_spec_def std_spec_def Pset_def sum_list_indices card_indices
        power2_eq_square del: indices.simps)
  define thr where "thr = Fin (threshold_spec dm Pset k)"
  have thr: "fadd (np_mean diff_mag) (fmul (Fin k) (np_std diff_mag)) = thr"
    by (simp add: mean std thr_def threshold_spec_def)
  have cnt: "np_count_true (np_map (\<lambda>v. fgt v thr) diff_mag)
             = card {p \<in> Pset. threshold_spec dm Pset k < dm p}"
  proof -
    have "np_count_true (np_map (\<lambda>v. fgt v thr) diff_mag)
          = length (filter (\<lambda>p. threshold_spec dm Pset k < dm p) (indices (shape diff_mag)))"
      by (rule count_true_map) (simp add: el_dm thr_def del: indices.simps)
    then show ?thesis
      by (simp add: sh_dm count_indices Pset_def del: indices.simps)
  qed
  have sz: "np_size (np_map (\<lambda>v. fgt v thr) diff_mag) = card Pset"
    by (simp add: np_size_def np_map_def sh_dm Pset_def card_indices)
  have cp: "0 < card Pset" using P by (simp add: Pset_def card_indices)
  have "pixel_change_core before after k =
        Inr (fmul (fdiv (Fin (real (card {p \<in> Pset. threshold_spec dm Pset k < dm p})))
                        (Fin (real (card Pset)))) (Fin 100))"
    using sub ml thr cnt sz
    by (simp add: pixel_change_core_exact astype_float_def ebind_def Let_def diff_def
        del: indices.simps)
  also have "\<dots> = Inr (Fin (pixel_change_spec bf af ps B k))"
    using cp by (auto simp: pixel_change_spec_def Let_def dm_def Pset_def simp del: indices.simps)
  finally show ?thesis .
qed

lemma transposed_index:
  "idx \<in> set (indices [n1, n2, n0]) \<Longrightarrow> [idx ! 2, idx ! 0, idx ! 1] \<in> set (indices [n0, n1, n2])"
  by (auto simp: in_indices_iff list_all2_Cons2 simp del: indices.simps)

lemma np_transpose_120_3d:
  "shape a = [n0, n1, n2] \<Longrightarrow>
   np_transpose_120 a = Inr (NDArray [n1, n2, n0] (\<lambda>idx. elem a [idx ! 2, idx ! 0, idx ! 1]))"
  by (simp add: np_transpose_120_def)

lemma calculate_drop_map:
  "calculate_pixel_change_percentage env before after k cmp =
     ebind (if ndim before = 3 \<and> shape before ! 0 \<le> 5
            then ebind (np_transpose_120 before) (\<lambda>b.
                   ebind (np_transpose_120 after) (\<lambda>a. Inr (b, a)))
            else Inr (before, after))
       (\<lambda>(b, a). pixel_change_core b a k)"
proof -
  have "ebind (pixel_change_core b a k)
          (\<lambda>pct. case cmp of None \<Rightarrow> Inr pct
                  | Some p \<Rightarrow>
                      (let printed = save_change_map exact_numerics env b a p in Inr pct))
        = pixel_change_core b a k" for b a
    by (cases "pixel_change_core b a k"; cases cmp) (simp_all add: ebind_def)
  then show ?thesis
    by (simp add: calculate_pixel_change_percentage_exact)
qed

lemma np_array3_elem: "elem (np_array3 xs) idx = Fin (xs ! (idx ! 0) ! (idx ! 1) ! (idx ! 2))"
  by (simp add: np_array3_def)

subsection \<open>Evaluation on concrete arrays\<close>

text \<open>
  Once the change magnitudes are known as a flat list of numbers, the result of the detector
  is \<open>pct_of_magnitudes\<close> of that list. The concrete pairs below are evaluated this way.
\<close>

lemma sqrt16: "sqrt 16 = 4"
  using real_sqrt_abs[of 4] by simp

lemma upt5: "[0..<5] = [0, 1, 2, 3, 4]"
  by (simp add: upt_rec)

lemma upt2: "[0..<2] = [0, 1]"
  by (simp add: upt_rec)

lemma upt4: "[0..<4] = [0, 1, 2, 3]"
  by (simp add: upt_rec)

lemma fsum_Fin_list: "fsum (map Fin xs) = Fin (sum_list xs)"
  using fsum_Fin[of "\<lambda>x. x" xs] by simp

lemma core_of_magnitudes:
  assumes d: "np_binop fsub a b = Inr d"
      and dm: "np_mean_last (np_map fabs d) = Inr dm"
      and xs: "np_tolist dm = map Fin xs" and ne: "xs \<noteq> []"
  shows "pixel_change_core b a k = Inr (Fin (pct_of_magnitudes xs k))"
proof -
  define n where "n = real (length xs)"
  define m where "m = sum_list xs / n"
  define v where "v = sum_list (map (\<lambda>x. (x - m) * (x - m)) xs) / n"
  have n: "0 < n" using ne by (simp add: n_def)
  have sz: "real (np_size dm) = n"
    by (simp add: np_size_tolist xs n_def)
  have mean: "np_mean dm = Fin m"
    using n by (simp add: np_mean_def xs fsum_Fin_list sz m_def)
  have tl2: "np_tolist (np_map (\<lambda>v. fmul v v) (np_map (\<lambda>v. fsub v (Fin m)) dm))
             = map (\<lambda>x. Fin ((x - m) * (x - m))) xs"
    by (simp add: np_tolist_map xs fsub_def comp_def)
  have sz2: "real (np_size (np_map (\<lambda>v. fmul v v) (np_map (\<lambda>v. fsub v (Fin m)) dm))) = n"
    by (simp add: np_size_tolist tl2 n_def)
  have "0 \<le> v"
    unfolding v_def using n by (intro divide_nonneg_nonneg sum_list_nonneg) auto
  moreover have "np_mean (np_map (\<lambda>v. fmul v v) (np_map (\<lambda>v. fsub v (Fin m)) dm)) = Fin v"
    using n by (simp add: np_mean_def tl2 sz2 fsum_Fin v_def)
  ultimately have std: "np_std dm = Fin (sqrt v)"
    by (simp add: np_std_def mean Let_def)
  have cnt: "np_count_true (np_map (\<lambda>x. fgt x (Fin (m + k * sqrt v))) dm)
             = length (filter (\<lambda>x. m + k * sqrt v < x) xs)"
    by (simp add: np_count_true_def np_tolist_map xs filter_map comp_def)
  have sz3: "np_size (np_map (\<lambda>x. fgt x (Fin (m + k * sqrt v))) dm) = length xs"
    by (simp add: np_size_tolist np_tolist_map xs)
  have "pixel_change_core b a k
        = Inr (Fin (real (length (filter (\<lambda>x. m + k * sqrt v < x) xs)) / n * 100))"
    using ne by (simp add: pixel_change_core_exact astype_float_def d dm ebind_def Let_def mean std
        cnt sz3 n_def)
  then show ?thesis
    by (simp add: pct_of_magnitudes_def Let_def n_def m_def v_def)
qed

lemma ex_magnitudes: "pct_of_magnitudes [0, 0, 0, 0, 10] 1 = 20"
  by (simp add: pct_of_magnitudes_def sqrt16)

lemma eval_band_major:
  assumes sb: "shape before = [n0, n1, n2]" and n0: "n0 \<le> 5"
      and sa: "shape after = [m0, m1, m2]"
      and bs: "broadcast_shapes [m1, m2, m0] [n1, n2, n0] = Some s" and s: "s \<noteq> []"
      and xs: "map (\<lambda>idx. fdiv (fsum (map (\<lambda>j.
                 fabs (fsub (elem after (to_band_major (bcast_index [m1, m2, m0] (idx @ [j]))))
                            (elem before (to_band_major (bcast_index [n1, n2, n0] (idx @ [j]))))))
                 [0..<last s])) (Fin (real (last s)))) (indices (butlast s)) = map Fin xs"
      and ne: "xs \<noteq> []"
  shows "calculate_pixel_change_percentage env before after k cmp
         = Inr (Fin (pct_of_magnitudes xs k))"
proof -
  define b where "b = NDArray [n1, n2, n0] (\<lambda>idx. elem before [idx ! 2, idx ! 0, idx ! 1])"
  define a where "a = NDArray [m1, m2, m0] (\<lambda>idx. elem after [idx ! 2, idx ! 0, idx ! 1])"
  define d where "d = NDArray s (\<lambda>idx. fsub (elem a (bcast_index [m1, m2, m0] idx))
                                           (elem b (bcast_index [n1, n2, n0] idx)))"
  define dm where "dm = NDArray (butlast s)
     (\<lambda>idx. fdiv (fsum (map (\<lambda>j. elem (np_map fabs d) (idx @ [j])) [0..<last s]))
                  (Fin (real (last s))))"
  have tb: "np_transpose_120 before = Inr b" and ta: "np_transpose_120 after = Inr a"
    using sb sa by (simp_all add: np_transpose_120_3d a_def b_def)
  have d: "np_binop fsub a b = Inr d"
    by (simp add: np_binop_def a_def b_def bs d_def)
  have dm: "np_mean_last (np_map fabs d) = Inr dm"
    using s by (simp add: np_mean_last_def np_map_def d_def dm_def Let_def)
  have tl: "np_tolist dm = map Fin xs"
    using xs by (simp add: np_tolist_def dm_def np_map_def d_def a_def b_def to_band_major_def
        del: indices.simps)
  have "pixel_change_core b a k = Inr (Fin (pct_of_magnitudes xs k))"
    by (rule core_of_magnitudes[OF d dm tl ne])
  then show ?thesis
    using sb n0 by (simp add: calculate_drop_map ndim_def tb ta ebind_def)
qed

text \<open>A one-band raster of one row and five columns in which one pixel changes by 10.\<close>

lemma ex_eval_k1:
  "calculate_pixel_change_percentage closed_env (np_array3 [[[0, 0, 0, 0, 0]]])
     (np_array3 [[[0, 0, 0, 0, 10]]]) 1 None = Inr (Fin 20)"
proof -
  have "calculate_pixel_change_percentage closed_env (np_array3 [[[0, 0, 0, 0, 0]]])
     (np_array3 [[[0, 0, 0, 0, 10]]]) 1 None = Inr (Fin (pct_of_magnitudes [0, 0, 0, 0, 10] 1))"
    by (rule eval_band_major[where ?n0.0 = 1 and ?n1.0 = 1 and ?n2.0 = 5
          and ?m0.0 = 1 and ?m1.0 = 1 and ?m2.0 = 5 and s = "[1, 5, 1]"])
       (simp_all add: np_array3_def broadcast_shapes_def bcast_index_def to_band_major_def
          fsum_def fsub_def upt5)
  then show ?thesis by (simp add: ex_magnitudes)
qed

text \<open>The same raster against a two-band raster of the same pixels.\<close>

lemma ex_mismatch_eval:
  "calculate_pixel_change_percentage writable_env (np_array3 [[[0, 0, 0, 0, 0]]])
     (np_array3 [[[0, 0, 0, 0, 10]], [[0, 0, 0, 0, 10]]]) 1 (Some ''maps/change.png'') = Inr (Fin 20)"
proof -
  have "calculate_pixel_change_percentage writable_env (np_array3 [[[0, 0, 0, 0, 0]]])
     (np_array3 [[[0, 0, 0, 0, 10]], [[0, 0, 0, 0, 10]]]) 1 (Some ''maps/change.png'')
       = Inr (Fin (pct_of_magnitudes [0, 0, 0, 0, 10] 1))"
    by (rule eval_band_major[where ?n0.0 = 1 and ?n1.0 = 1 and ?n2.0 = 5
          and ?m0.0 = 2 and ?m1.0 = 1 and ?m2.0 = 5 and s = "[1, 5, 2]"])
       (simp_all add: np_array3_def broadcast_shapes_def bcast_index_def to_band_major_def
          fsum_def fsub_def upt5 upt2)
  then show ?thesis by (simp add: ex_magnitudes)
qed

lemma ex_three_band_pixel:
  "calculate_pixel_change_percentage closed_env (np_full [3, 1, 1] (Fin 0))
     (np_full [3, 1, 1] (Fin 0)) 1 None = Inr (Fin 0)"
proof -
  have "calculate_pixel_change_percentage closed_env (np_full [3, 1, 1] (Fin 0))
     (np_full [3, 1, 1] (Fin 0)) 1 None = Inr (Fin (pct_of_magnitudes [0] 1))"
    by (rule eval_band_major[where ?n0.0 = 3 and ?n1.0 = 1 and ?n2.0 = 1
          and ?m0.0 = 3 and ?m1.0 = 1 and ?m2.0 = 1 and s = "[1, 1, 3]"])
       (simp_all add: np_full_def broadcast_shapes_def fsum_def fsub_def upt_rec)
  then show ?thesis by (simp add: pct_of_magnitudes_def)
qed

lemma ex_four_band_pixel:
  "calculate_pixel_change_percentage closed_env (np_full [4, 1, 2] (Fin 0))
     (np_array3 [[[0, 8]], [[0, 0]], [[0, 0]], [[0, 0]]]) (1 / 2) None = Inr (Fin 50)"
proof -
  have "calculate_pixel_change_percentage closed_env (np_full [4, 1, 2] (Fin 0))
     (np_array3 [[[0, 8]], [[0, 0]], [[0, 0]], [[0, 0]]]) (1 / 2) None
       = Inr (Fin (pct_of_magnitudes [0, 2] (1 / 2)))"
    by (rule eval_band_major[where ?n0.0 = 4 and ?n1.0 = 1 and ?n2.0 = 2
          and ?m0.0 = 4 and ?m1.0 = 1 and ?m2.0 = 2 and s = "[1, 2, 4]"])
       (simp_all add: np_full_def np_array3_def broadcast_shapes_def bcast_index_def
          to_band_major_def fsum_def fsub_def upt2 upt4)
  then show ?thesis by (simp add: pct_of_magnitudes_def)
qed

lemma eval_same_shape_core:
  assumes sa: "shape a = s" and sb: "shape b = s" and s: "s \<noteq> []"
      and xs: "map (\<lambda>idx. fdiv (fsum (map (\<lambda>j.
                 fabs (fsub (elem a (bcast_index s (idx @ [j])))
                            (elem b (bcast_index s (idx @ [j])))))
                 [0..<last s])) (Fin (real (last s)))) (indices (butlast s)) = map Fin xs"
      and ne: "xs \<noteq> []"
  shows "pixel_change_core b a k = Inr (Fin (pct_of_magnitudes xs k))"
proof -
  define d where "d = NDArray s (\<lambda>idx. fsub (elem a (bcast_index s idx))
                                           (elem b (bcast_index s idx)))"
  define dm where "dm = NDArray (butlast s)
     (\<lambda>idx. fdiv (fsum (map (\<lambda>j. elem (np_map fabs d) (idx @ [j])) [0..<last s]))
                  (Fin (real (last s))))"
  have d: "np_binop fsub a b = Inr d"
    using np_binop_same_shape[of a b fsub] sa sb by (simp add: d_def)
  have dm: "np_mean_last (np_map fabs d) = Inr dm"
    using s by (simp add: np_mean_last_def np_map_def d_def dm_def Let_def)
  have tl: "np_tolist dm = map Fin xs"
    using xs by (simp add: np_tolist_def dm_def np_map_def d_def del: indices.simps)
  show ?thesis
    by (rule core_of_magnitudes[OF d dm tl ne])
qed

lemma ex_one_pixel_core:
  "pixel_change_core (np_array3 [[[0, 0, 0, 0, 0]]]) (np_array3 [[[0, 0, 0, 0, 10]]]) 1
     = Inr (Fin 0)"
proof -
  have "pixel_change_core (np_array3 [[[0, 0, 0, 0, 0]]]) (np_array3 [[[0, 0, 0, 0, 10]]]) 1
     = Inr (Fin (pct_of_magnitudes [2] 1))"
    by (rule eval_same_shape_core[where s = "[1, 1, 5]"])
       (simp_all add: np_array3_def bcast_index_def fsum_def fsub_def upt5)
  then show ?thesis by (simp add: pct_of_magnitudes_def)
qed

section \<open>The percentage as the formula of the specification\<close>






section \<open>Monotonicity in the threshold factor\<close>

lemma threshold_mono:
  assumes "k1 \<le> k2" and "fgt v (fadd m (fmul (Fin k2) (fsqrt x)))"
  shows "fgt v (fadd m (fmul (Fin k1) (fsqrt x)))"
proof (cases x)
  case (Fin a)
  show ?thesis
  proof (cases "0 \<le> a")
    case True
    then have "k1 * sqrt a \<le> k2 * sqrt a"
      using assms(1) by (simp add: mult_right_mono)
    then show ?thesis
      using assms(2) Fin True by (cases v; cases m) auto
  next
    case False
    then show ?thesis using assms(2) Fin by (cases v; cases m) auto
  qed
next
  case PInf
  then show ?thesis
    using assms by (cases v; cases m) (auto split: if_splits)
next
  case NInf
  then show ?thesis using assms(2) by (cases v; cases m) auto
next
  case NaN
  then show ?thesis using assms(2) by (cases v; cases m) auto
qed

lemma count_true_mono:
  assumes "\<And>v. P v \<Longrightarrow> Q v"
  shows "np_count_true (np_map P a) \<le> np_count_true (np_map Q a)"
proof -
  have "length (filter (\<lambda>b. b) (map (\<lambda>i. P (elem a i)) xs))
        \<le> length (filter (\<lambda>b. b) (map (\<lambda>i. Q (elem a i)) xs))" for xs
    using assms by (induction xs) auto
  then show ?thesis
    by (simp add: np_count_true_def np_map_def np_tolist_def del: indices.simps)
qed

lemma percentage_Fin:
  "fmul (fdiv (Fin (real c)) (Fin (real n))) (Fin 100) = Fin p \<Longrightarrow>
   0 < n \<and> p = real c / real n * 100"
  by (cases "n = 0"; cases "c = 0") auto

lemma pixel_change_core_mono:
  assumes "k1 \<le> k2" and "pixel_change_core b a k1 = Inr (Fin p1)"
  shows "\<exists>p2. pixel_change_core b a k2 = Inr (Fin p2) \<and> p2 \<le> p1"
proof -
  obtain d where d: "np_binop fsub a b = Inr d"
    using assms(2)
    by (cases "np_binop fsub a b") (simp_all add: pixel_change_core_exact astype_float_def ebind_def)
  obtain dm where dm: "np_mean_last (np_map fabs d) = Inr dm"
    using assms(2) d
    by (cases "np_mean_last (np_map fabs d)")
       (simp_all add: pixel_change_core_exact astype_float_def ebind_def Let_def)
  define thr where "thr k = fadd (np_mean dm) (fmul (Fin k) (np_std dm))" for k
  define c where "c k = np_count_true (np_map (\<lambda>v. fgt v (thr k)) dm)" for k
  define n where "n = prod_list (shape dm)"
  have core: "pixel_change_core b a k = Inr (fmul (fdiv (Fin (real (c k))) (Fin (real n))) (Fin 100))"
    for k
    using d dm
    by (simp add: pixel_change_core_exact astype_float_def ebind_def Let_def c_def thr_def n_def
        np_size_def np_map_def)
  have "fgt v (thr k2) \<Longrightarrow> fgt v (thr k1)" for v
    unfolding thr_def np_std_def Let_def using threshold_mono[OF assms(1)] by blast
  then have le: "c k2 \<le> c k1"
    unfolding c_def by (rule count_true_mono)
  from assms(2) core[of k1] have "0 < n \<and> p1 = real (c k1) / real n * 100"
    using percentage_Fin by simp
  then have "pixel_change_core b a k2 = Inr (Fin (real (c k2) / real n * 100))"
    and "real (c k2) / real n * 100 \<le> p1"
    using core[of k2] le by (simp_all add: divide_right_mono)
  then show ?thesis by blast
qed

text \<open>
  Claim C7. For a fixed pair of arrays (of any shape and with any values), if the detector
  returns the percentage \<open>p1\<close> for the factor \<open>k1\<close>, then for every \<open>k2 \<ge> k1\<close> it returns a
  percentage \<open>p2 \<le> p1\<close>.
\<close>

theorem pixel_change_monotone:
  assumes "k1 \<le> k2"
      and "calculate_pixel_change_percentage env before after k1 cmp = Inr (Fin p1)"
  shows "\<exists>p2. calculate_pixel_change_percentage env before after k2 cmp = Inr (Fin p2) \<and> p2 \<le> p1"
proof -
  define norm where "norm =
     (if ndim before = 3 \<and> shape before ! 0 \<le> 5
      then ebind (np_transpose_120 before) (\<lambda>b.
             ebind (np_transpose_120 after) (\<lambda>a. Inr (b, a)))
      else Inr (before, after))"
  have calc: "calculate_pixel_change_percentage env before after k cmp
              = ebind norm (\<lambda>(b, a). pixel_change_core b a k)" for k
    by (simp add: calculate_drop_map norm_def)
  from assms(2) obtain b a where ba: "norm = Inr (b, a)"
    unfolding calc by (cases norm) (auto simp: ebind_def)
  with assms(2) have "pixel_change_core b a k1 = Inr (Fin p1)"
    by (simp add: calc ebind_def)
  from pixel_change_core_mono[OF assms(1) this] show ?thesis
    by (simp add: calc ba ebind_def)
qed

theorem pixel_change_monotone_witness:
  "(1::real) \<le> 2 \<and>
   calculate_pixel_change_percentage closed_env (np_array3 [[[0, 0, 0, 0, 0]]])
     (np_array3 [[[0, 0, 0, 0, 10]]]) 1 None = Inr (Fin 20) \<and>
   (\<exists>p2. calculate_pixel_change_percentage closed_env (np_array3 [[[0, 0, 0, 0, 0]]])
      (np_array3 [[[0, 0, 0, 0, 10]]]) 2 None = Inr (Fin p2) \<and> p2 \<le> 20)"
proof -
  have k: "(1::real) \<le> 2" by simp
  from pixel_change_monotone[OF k ex_eval_k1] k ex_eval_k1 show ?thesis by blast
qed

section \<open>A uniform step\<close>

lemma pixel_change_spec_uniform:
  assumes "\<And>p. p \<in> set (indices ps) \<Longrightarrow> diff_magnitude_spec bf af B p = c"
  shows "pixel_change_spec bf af ps B k = 0"
proof -
  define P where "P = set (indices ps)"
  define dm where "dm = diff_magnitude_spec bf af B"
  have c: "\<And>p. p \<in> P \<Longrightarrow> dm p = c"
    using assms by (simp add: P_def dm_def)
  show ?thesis
  proof (cases "card P = 0")
    case True
    then show ?thesis
      by (simp add: pixel_change_spec_def Let_def P_def del: indices.simps)
  next
    case False
    have m: "mean_spec dm P = c"
      using False c by (simp add: mean_spec_def)
    have s: "std_spec dm P = 0"
      using c by (simp add: std_spec_def m)
    have "{p \<in> P. threshold_spec dm P k < dm p} = {}"
      using c by (auto simp: threshold_spec_def m s)
    then show ?thesis
      by (simp add: pixel_change_spec_def Let_def P_def dm_def del: indices.simps)
  qed
qed

lemma uniform_step_zero:
  "calculate_pixel_change_percentage env (np_full [50, 50, 3] (Fin 0))
     (np_full [50, 50, 3] (Fin 255)) k cmp = Inr (Fin 0)"
proof -
  let ?b = "np_full [50, 50, 3] (Fin 0) :: npfloat ndarray"
  let ?a = "np_full [50, 50, 3] (Fin 255) :: npfloat ndarray"
  have "pixel_change_core ?b ?a k
        = Inr (Fin (pixel_change_spec (\<lambda>idx. 0) (\<lambda>idx. 255) [50, 50] 3 k))"
    by (rule pixel_change_core_fin) (simp_all add: np_full_def del: indices.simps)
  moreover have "pixel_change_spec (\<lambda>idx. 0) (\<lambda>idx. 255) [50, 50] 3 k = 0"
    by (rule pixel_change_spec_uniform[where c = 255]) (simp add: diff_magnitude_spec_def)
  moreover have "calculate_pixel_change_percentage env ?b ?a k cmp = pixel_change_core ?b ?a k"
    by (simp add: calculate_drop_map ndim_def np_full_def ebind_def)
  ultimately show ?thesis by simp
qed

text \<open>
  Claim C9, as the code has it. For two pixel-major 50 by 50 images with 3 bands, all zero
  before and all 255 after, \<open>calculate_pixel_change_percentage\<close> reports 0 per cent for every
  threshold factor: every pixel has the magnitude 255, the standard deviation is 0, the
  threshold is 255, and no magnitude is strictly above it.
\<close>

theorem uniform_step_reports_zero:
  "calculate_pixel_change_percentage env (np_full [50, 50, 3] (Fin 0))
     (np_full [50, 50, 3] (Fin 255)) k cmp = Inr (Fin 0)"
  by (rule uniform_step_zero)

text \<open>Claim C9 as stated (100 per cent) fails at the default factor 1.\<close>

theorem uniform_step_not_hundred_counterexample:
  "calculate_pixel_change_percentage closed_env (np_full [50, 50, 3] (Fin 0))
     (np_full [50, 50, 3] (Fin 255)) 1 None \<noteq> Inr (Fin 100)"
  by (simp add: uniform_step_zero)

section \<open>Layout heuristic and errors of the Pixel Change Detector\<close>

lemma pixel_change_error_kinds:
  assumes "calculate_pixel_change_percentage env before after k cmp = Inl e"
  shows "e = ValueError ''axes do not match array'' \<or>
         e = ValueError ''operands could not be broadcast together'' \<or>
         e = AxisError"
proof -
  have core: "pixel_change_core b a k = Inl e \<Longrightarrow>
        e = ValueError ''operands could not be broadcast together'' \<or> e = AxisError" for b a
    by (auto simp: pixel_change_core_exact astype_float_def ebind_def np_binop_def np_mean_last_def
        Let_def split: sum.splits option.splits if_splits)
  have tr: "np_transpose_120 a = Inl e \<Longrightarrow> e = ValueError ''axes do not match array''"
    for a :: "npfloat ndarray"
    by (auto simp: np_transpose_120_def split: list.splits)
  show ?thesis
    using assms core tr
    by (auto simp: calculate_drop_map ebind_def split: sum.splits if_splits)
qed

text \<open>
  Claim C10. An array with three axes is transposed (first axis moved to the end) exactly
  when its first axis has length at most 5, whatever its actual layout; otherwise it is
  used as it is. The ``unexpected image shape'' error of the renderer never reaches the
  caller of \<open>calculate_pixel_change_percentage\<close>, for any pair of arrays.
\<close>

theorem layout_heuristic:
  assumes "ndim before = 3"
  shows "calculate_pixel_change_percentage env before after k cmp =
           (if shape before ! 0 \<le> 5
            then ebind (np_transpose_120 before) (\<lambda>b.
                   ebind (np_transpose_120 after) (\<lambda>a. pixel_change_core b a k))
            else pixel_change_core before after k) \<and>
         calculate_pixel_change_percentage env x y k cmp \<noteq>
           Inl (ValueError ''Unexpected image shape for change map visualization'')"
proof -
  have "calculate_pixel_change_percentage env x y k cmp \<noteq>
           Inl (ValueError ''Unexpected image shape for change map visualization'')"
    using pixel_change_error_kinds[of env x y k cmp] by auto
  moreover have "calculate_pixel_change_percentage env before after k cmp =
           (if shape before ! 0 \<le> 5
            then ebind (np_transpose_120 before) (\<lambda>b.
                   ebind (np_transpose_120 after) (\<lambda>a. pixel_change_core b a k))
            else pixel_change_core before after k)"
    using assms
    by (auto simp: calculate_drop_map ebind_def split: sum.splits)
  ultimately show ?thesis by blast
qed

text \<open>
  The array of shape \<open>[1, 1, 5]\<close> read as a pixel-major image is one pixel with five bands,
  for which the computation without transposition gives 0 per cent; the function
  transposes it and reports 20 per cent.
\<close>

theorem layout_heuristic_witness:
  "ndim (np_array3 [[[0, 0, 0, 0, 0]]]) = 3 \<and>
   shape (np_array3 [[[0, 0, 0, 0, 0]]]) ! 0 \<le> 5 \<and>
   ebind (np_transpose_120 (np_array3 [[[0, 0, 0, 0, 0]]])) (\<lambda>b.
     ebind (np_transpose_120 (np_array3 [[[0, 0, 0, 0, 10]]])) (\<lambda>a.
       pixel_change_core b a 1)) = Inr (Fin 20) \<and>
   pixel_change_core (np_array3 [[[0, 0, 0, 0, 0]]]) (np_array3 [[[0, 0, 0, 0, 10]]]) 1
     = Inr (Fin 0)"
proof -
  have n: "ndim (np_array3 [[[0, 0, 0, 0, 0]]]) = 3"
    by (simp add: ndim_def np_array3_def)
  have s: "shape (np_array3 [[[0, 0, 0, 0, 0]]]) ! 0 \<le> 5"
    by (simp add: np_array3_def)
  note c = ex_one_pixel_core
  from layout_heuristic[OF n, of closed_env "np_array3 [[[0, 0, 0, 0, 10]]]" 1 None] ex_eval_k1 s
  have "ebind (np_transpose_120 (np_array3 [[[0, 0, 0, 0, 0]]])) (\<lambda>b.
     ebind (np_transpose_120 (np_array3 [[[0, 0, 0, 0, 10]]])) (\<lambda>a.
       pixel_change_core b a 1)) = Inr (Fin 20)"
    by simp
  with n s c show ?thesis by blast
qed

section \<open>Shapes that differ\<close>

lemma pixel_change_core_total:
  assumes "shape b = ps @ [B]" and "shape a = ps @ [B]" and "0 < prod_list ps"
  shows "\<exists>p. pixel_change_core b a k = Inr (Fin p) \<and> 0 \<le> p \<and> p \<le> 100"
proof -
  define d where "d = NDArray (ps @ [B])
     (\<lambda>idx. fsub (elem a (bcast_index (ps @ [B]) idx)) (elem b (bcast_index (ps @ [B]) idx)))"
  define dm where "dm = NDArray ps
     (\<lambda>idx. fdiv (fsum (map (\<lambda>j. elem (np_map fabs d) (idx @ [j])) [0..<B])) (Fin (real B)))"
  define thr where "thr = fadd (np_mean dm) (fmul (Fin k) (np_std dm))"
  define c where "c = np_count_true (np_map (\<lambda>v. fgt v thr) dm)"
  have sub: "np_binop fsub a b = Inr d"
    using np_binop_same_shape[of a b fsub] assms(1,2) by (simp add: d_def)
  have ml: "np_mean_last (np_map fabs d) = Inr dm"
    by (simp add: np_mean_last_def np_map_def d_def dm_def Let_def)
  have "c \<le> length (indices ps)"
    by (simp add: c_def np_count_true_def np_tolist_def np_map_def dm_def
        order_trans[OF length_filter_le] del: indices.simps)
  then have le: "c \<le> prod_list ps"
    by (simp add: length_indices)
  have "pixel_change_core b a k = Inr (Fin (real c / real (prod_list ps) * 100))"
    using sub ml assms(3)
    by (simp add: pixel_change_core_exact astype_float_def ebind_def Let_def c_def thr_def
        np_size_def np_map_def dm_def)
  moreover have "0 \<le> real c / real (prod_list ps) * 100"
    by simp
  moreover have "real c / real (prod_list ps) * 100 \<le> 100"
    using le assms(3) by (simp add: divide_le_eq)
  ultimately show ?thesis by blast
qed

lemma pixel_change_same_shape_total:
  assumes "shape before = [n0, n1, n2]" and "shape after = [n0, n1, n2]"
      and "0 < n0" and "0 < n1" and "0 < n2"
  shows "\<exists>p. calculate_pixel_change_percentage env before after k cmp = Inr (Fin p) \<and>
             0 \<le> p \<and> p \<le> 100"
proof (cases "n0 \<le> 5")
  case True
  have "\<exists>p. pixel_change_core
          (NDArray [n1, n2, n0] (\<lambda>idx. elem before [idx ! 2, idx ! 0, idx ! 1]))
          (NDArray [n1, n2, n0] (\<lambda>idx. elem after [idx ! 2, idx ! 0, idx ! 1])) k = Inr (Fin p)
        \<and> 0 \<le> p \<and> p \<le> 100"
    using assms(4,5) by (intro pixel_change_core_total[where ps = "[n1, n2]" and B = n0]) simp_all
  with True show ?thesis
    using assms(1,2)
    by (simp add: calculate_drop_map ndim_def ebind_def np_transpose_120_3d)
next
  case False
  have "\<exists>p. pixel_change_core before after k = Inr (Fin p) \<and> 0 \<le> p \<and> p \<le> 100"
    using assms by (intro pixel_change_core_total[where ps = "[n0, n1]" and B = n2]) simp_all
  with False show ?thesis
    using assms(1) by (simp add: calculate_drop_map ndim_def ebind_def)
qed

lemma pixel_change_incompatible_shapes:
  assumes "shape before = [n0, n1, n2]" and "5 < n0"
      and "broadcast_shapes (shape after) (shape before) = None"
  shows "calculate_pixel_change_percentage env before after k cmp =
           Inl (ValueError ''operands could not be broadcast together'')"
  using assms
  by (simp add: calculate_drop_map ndim_def ebind_def pixel_change_core_exact astype_float_def
      np_binop_def)

text \<open>
  Claim C6 at a pair whose band counts differ: a one-band raster and a two-band raster of
  the same 1 by 5 pixels. After the normalisation the shapes are \<open>[1, 5, 1]\<close> and
  \<open>[1, 5, 2]\<close>; the subtraction broadcasts the single band, and the detector returns 20 per
  cent instead of failing, while the shape check of \<open>save_change_map\<close> rejects the same pair
  when it is asked to write the map to \<open>maps/change.png\<close>, a path with a directory that can
  be created.
\<close>

theorem shape_mismatch_accepted:
  "calculate_pixel_change_percentage writable_env (np_array3 [[[0, 0, 0, 0, 0]]])
     (np_array3 [[[0, 0, 0, 0, 10]], [[0, 0, 0, 0, 10]]]) 1 (Some ''maps/change.png'') = Inr (Fin 20) \<and>
   shape (np_array3 [[[0, 0, 0, 0, 0]]]) \<noteq>
     shape (np_array3 [[[0, 0, 0, 0, 10]], [[0, 0, 0, 0, 10]]]) \<and>
   save_change_map exact_numerics writable_env (np_array3 [[[0, 0, 0, 0, 0]]])
     (np_array3 [[[0, 0, 0, 0, 10]], [[0, 0, 0, 0, 10]]]) ''maps/change.png''
     = MapError (ValueError ''Before and after images must have the same shape'')"
  using ex_mismatch_eval
  by (simp add: save_change_map_def writable_env_def np_array3_def dirname_def)

section \<open>Rasters with fewer than four bands\<close>

lemma compute_indices_few_bands:
  "shape before_data = n # s \<Longrightarrow> n < 4 \<Longrightarrow>
   compute_indices before_data after_data = Inr (None, None, None, None)"
  by (simp add: compute_indices_def shape0_def ebind_def)

lemma analyze_no_indices:
  "analyze_satellite_changes None None None None =
     Inr [(''analysis_type'', PyStr ''satellite_indices''),
          (''vegetation_changes'', PyDict []),
          (''urban_changes'', PyDict []),
          (''total_change_percentage'', PyFloat (Fin 0))]"
  by (simp add: analyze_satellite_changes_def initial_changes_def vegetation_step_def
      urban_step_def total_step_def ebind_def dict_get_def dict_set_def Let_def)

text \<open>
  Claim C5, as the code has it. For a band-major raster pair whose first raster has fewer
  than 4 bands no index is computed. Whenever the Pixel Change Detector returns a
  percentage, the report is pixel-change-only: its \<open>analysis_type\<close> stays
  \<open>satellite_indices\<close>, the fields \<open>vegetation_changes\<close> and \<open>urban_changes\<close> are present and
  hold empty dictionaries, the index aggregate is 0, so that \<open>total_change_percentage\<close> is
  the pixel-change percentage when that is positive and 0 otherwise. Whenever the Pixel
  Change Detector raises, the same error is raised and there is no report. For two rasters
  of the same shape with three non-empty axes the detector returns a percentage between 0
  and 100.
\<close>

theorem few_bands_report:
  assumes "shape before_data = n # s" and "n < 4"
  shows "(\<forall>pix. calculate_pixel_change_percentage env before_data after_data k cmp = Inr pix \<longrightarrow>
            process_geotiff env before_data after_data cmp k =
              Inr [(''analysis_type'', PyStr ''satellite_indices''),
                   (''vegetation_changes'', PyDict []),
                   (''urban_changes'', PyDict []),
                   (''total_change_percentage'',
                      PyFloat (if fgt pix (Fin 0) then pix else Fin 0)),
                   (''pixel_change_percentage'', PyFloat pix)]) \<and>
         (\<forall>e. calculate_pixel_change_percentage env before_data after_data k cmp = Inl e \<longrightarrow>
            process_geotiff env before_data after_data cmp k = Inl e) \<and>
         (\<forall>h w. s = [h, w] \<and> shape after_data = [n, h, w] \<and> 0 < n \<and> 0 < h \<and> 0 < w \<longrightarrow>
            (\<exists>p. calculate_pixel_change_percentage env before_data after_data k cmp = Inr (Fin p) \<and>
                 0 \<le> p \<and> p \<le> 100))"
proof (intro conjI allI impI)
  fix pix
  assume "calculate_pixel_change_percentage env before_data after_data k cmp = Inr pix"
  then show "process_geotiff env before_data after_data cmp k =
              Inr [(''analysis_type'', PyStr ''satellite_indices''),
                   (''vegetation_changes'', PyDict []),
                   (''urban_changes'', PyDict []),
                   (''total_change_percentage'',
                      PyFloat (if fgt pix (Fin 0) then pix else Fin 0)),
                   (''pixel_change_percentage'', PyFloat pix)]"
    using assms
    by (simp add: process_geotiff_def compute_indices_few_bands analyze_no_indices ebind_def
        dict_set_def dict_get_def get_total_def Let_def)
next
  fix e
  assume "calculate_pixel_change_percentage env before_data after_data k cmp = Inl e"
  then show "process_geotiff env before_data after_data cmp k = Inl e"
    using assms
    by (simp add: process_geotiff_def compute_indices_few_bands analyze_no_indices ebind_def)
next
  fix h w
  assume "s = [h, w] \<and> shape after_data = [n, h, w] \<and> 0 < n \<and> 0 < h \<and> 0 < w"
  then show "\<exists>p. calculate_pixel_change_percentage env before_data after_data k cmp = Inr (Fin p) \<and>
                 0 \<le> p \<and> p \<le> 100"
    using assms(1) by (intro pixel_change_same_shape_total[of before_data n h w]) simp_all
qed

theorem few_bands_report_witness:
  "process_geotiff closed_env (np_full [3, 1, 1] (Fin 0)) (np_full [3, 1, 1] (Fin 0)) None 1 =
     Inr [(''analysis_type'', PyStr ''satellite_indices''),
          (''vegetation_changes'', PyDict []),
          (''urban_changes'', PyDict []),
          (''total_change_percentage'', PyFloat (Fin 0)),
          (''pixel_change_percentage'', PyFloat (Fin 0))]"
proof -
  have s: "shape (np_full [3, 1, 1] (Fin 0 :: npfloat)) = 3 # [1, 1]"
    by (simp add: np_full_def)
  have n: "(3::nat) < 4" by simp
  from few_bands_report[OF s n, of closed_env "np_full [3, 1, 1] (Fin 0)" 1 None]
    ex_three_band_pixel
  show ?thesis by simp
qed

text \<open>
  Claim C5 as stated says that the two fields are omitted; for a pair of three-band rasters
  the report holds both keys.
\<close>

theorem few_bands_fields_present_counterexample:
  "process_geotiff closed_env (np_full [3, 1, 1] (Fin 0)) (np_full [3, 1, 1] (Fin 0)) None 1 =
     Inr three_band_report \<and>
   dict_get three_band_report ''vegetation_changes'' = Some (PyDict []) \<and>
   dict_get three_band_report ''urban_changes'' = Some (PyDict [])"
  using ex_three_band_pixel
  by (simp add: three_band_report_def process_geotiff_def compute_indices_few_bands
      analyze_no_indices ebind_def dict_set_def dict_get_def get_total_def Let_def np_full_def)

section \<open>The reconciled headline figure\<close>

lemma np_size_pos_iff: "0 < np_size a \<longleftrightarrow> 0 \<notin> set (shape a)"
proof -
  have "0 < prod_list xs \<longleftrightarrow> 0 \<notin> set xs" for xs :: "nat list"
    by (induction xs) auto
  then show ?thesis by (simp add: np_size_def)
qed

lemma bshape_rev_pos:
  "bshape_rev xs ys = Some zs \<Longrightarrow> 0 \<notin> set xs \<Longrightarrow> 0 \<notin> set ys \<Longrightarrow> 0 \<notin> set zs"
  by (induction xs ys arbitrary: zs rule: bshape_rev.induct) (auto split: if_splits)

lemma broadcast_shapes_pos:
  "broadcast_shapes s t = Some u \<Longrightarrow> 0 \<notin> set s \<Longrightarrow> 0 \<notin> set t \<Longrightarrow> 0 \<notin> set u"
  using bshape_rev_pos[of "rev s" "rev t"] by (auto simp: broadcast_shapes_def)

lemma np_binop_size_pos:
  "np_binop f a b = Inr c \<Longrightarrow> 0 < np_size a \<Longrightarrow> 0 < np_size b \<Longrightarrow> 0 < np_size c"
  using broadcast_shapes_pos[of "shape a" "shape b"]
  by (auto simp: np_binop_def np_size_pos_iff split: option.splits)

lemma np_getitem_size_pos:
  "np_getitem a i = Inr c \<Longrightarrow> 0 < np_size a \<Longrightarrow> 0 < np_size c"
  by (auto simp: np_getitem_def np_size_pos_iff split: list.splits if_splits)

lemma ebind_Inr_iff: "ebind r f = Inr v \<longleftrightarrow> (\<exists>u. r = Inr u \<and> f u = Inr v)"
  by (cases r) (simp_all add: ebind_def)

lemma calculate_ndvi_size_pos:
  assumes "calculate_ndvi x y = Inr out" and "0 < np_size x" and "0 < np_size y"
  shows "0 < np_size out"
proof -
  from assms(1) obtain d0 nu where d0: "np_binop fadd x y = Inr d0"
    and nu: "np_binop fsub x y = Inr nu"
    and o: "np_binop fdiv nu (guard_zero d0) = Inr out"
    by (auto simp: calculate_ndvi_exact astype_float_def ebind_Inr_iff Let_def split: if_splits)
  have "0 < np_size (guard_zero d0)"
    using np_binop_size_pos[OF d0 assms(2,3)] by (simp add: guard_zero_exact np_map_def np_size_def)
  with np_binop_size_pos[OF o np_binop_size_pos[OF nu assms(2,3)]] show ?thesis by simp
qed

lemma calculate_ndbi_size_pos:
  assumes "calculate_ndbi x y = Inr out" and "0 < np_size x" and "0 < np_size y"
  shows "0 < np_size out"
proof -
  from assms(1) obtain d0 nu where d0: "np_binop fadd x y = Inr d0"
    and nu: "np_binop fsub x y = Inr nu"
    and o: "np_binop fdiv nu (guard_zero d0) = Inr out"
    by (auto simp: calculate_ndbi_exact astype_float_def ebind_Inr_iff Let_def split: if_splits)
  have "0 < np_size (guard_zero d0)"
    using np_binop_size_pos[OF d0 assms(2,3)] by (simp add: guard_zero_exact np_map_def np_size_def)
  with np_binop_size_pos[OF o np_binop_size_pos[OF nu assms(2,3)]] show ?thesis by simp
qed

lemma ndvi_from_items:
  "np_getitem a i = Inr x \<Longrightarrow> np_getitem a j = Inr y \<Longrightarrow> calculate_ndvi x y = Inr out \<Longrightarrow>
   0 < np_size a \<Longrightarrow> 0 < np_size out"
  by (blast intro: calculate_ndvi_size_pos np_getitem_size_pos)

lemma ndbi_from_items:
  "np_getitem a i = Inr x \<Longrightarrow> np_getitem a j = Inr y \<Longrightarrow> calculate_ndbi x y = Inr out \<Longrightarrow>
   0 < np_size a \<Longrightarrow> 0 < np_size out"
  by (blast intro: calculate_ndbi_size_pos np_getitem_size_pos)

lemma compute_indices_nonempty:
  assumes "compute_indices before after = Inr (bn, an, bb, ab)"
      and "0 < np_size before" and "0 < np_size after"
  shows "nonempty_opt bn \<and> nonempty_opt an \<and> nonempty_opt bb \<and> nonempty_opt ab"
  using assms
  by (auto simp: compute_indices_def ebind_Inr_iff nonempty_opt_def split: if_splits)
     (blast intro: ndvi_from_items ndbi_from_items)+

lemma percentage_pos: "0 < n \<Longrightarrow> percentage c n = Fin (real c / real n * 100)"
  by (simp add: percentage_def)

lemma dict_get_set: "dict_get (dict_set d k v) k' = (if k' = k then Some v else dict_get d k')"
  by (simp add: dict_get_def dict_set_def update_conv')

lemma vegetation_step_ok:
  assumes "vegetation_step c bn an = Inr c'" and "nonempty_opt bn" and "nonempty_opt an"
      and "dict_get c ''vegetation_changes'' = Some (PyDict [])"
  shows "stats_ok (dict_get c' ''vegetation_changes'') ''loss_percentage'' ''gain_percentage'' \<and>
         dict_get c' ''urban_changes'' = dict_get c ''urban_changes''"
proof (cases "\<exists>b a. bn = Some b \<and> an = Some a")
  case True
  then obtain b a where ba: "bn = Some b" "an = Some a" by blast
  from assms(1) obtain d where d: "np_binop fsub a b = Inr d"
    by (auto simp: vegetation_step_def ba ebind_Inr_iff)
  have "0 < np_size d"
    using np_binop_size_pos[OF d] assms(2,3) by (simp add: ba nonempty_opt_def)
  then show ?thesis
    using assms(1) d
    by (auto simp: vegetation_step_def ba ebind_def Let_def percentage_pos dict_get_set stats_ok_def)
next
  case False
  then have "c' = c"
    using assms(1) by (auto simp: vegetation_step_def split: option.splits)
  then show ?thesis using assms(4) by (simp add: stats_ok_def)
qed

lemma urban_step_ok:
  assumes "urban_step c bb ab = Inr c'" and "nonempty_opt bb" and "nonempty_opt ab"
      and "dict_get c ''urban_changes'' = Some (PyDict [])"
  shows "stats_ok (dict_get c' ''urban_changes'') ''growth_percentage'' ''decline_percentage'' \<and>
         dict_get c' ''vegetation_changes'' = dict_get c ''vegetation_changes''"
proof (cases "\<exists>b a. bb = Some b \<and> ab = Some a")
  case True
  then obtain b a where ba: "bb = Some b" "ab = Some a" by blast
  from assms(1) obtain d where d: "np_binop fsub a b = Inr d"
    by (auto simp: urban_step_def ba ebind_Inr_iff)
  have "0 < np_size d"
    using np_binop_size_pos[OF d] assms(2,3) by (simp add: ba nonempty_opt_def)
  then show ?thesis
    using assms(1) d
    by (auto simp: urban_step_def ba ebind_def Let_def percentage_pos dict_get_set stats_ok_def)
next
  case False
  then have "c' = c"
    using assms(1) by (auto simp: urban_step_def split: option.splits)
  then show ?thesis using assms(4) by (simp add: stats_ok_def)
qed

lemma stats_sum:
  assumes "stats_ok (dict_get c k) k1 k2" and "k1 \<noteq> k2"
  shows "\<exists>t. (if truthy (dict_get c k)
              then ebind (dict_get2 c k k1) (\<lambda>x. ebind (dict_get2 c k k2) (\<lambda>y. Inr (fadd (Fin t0) (fadd x y))))
              else Inr (Fin t0)) = Inr (Fin t)"
  using assms by (auto simp: stats_ok_def dict_get2_def ebind_def)

lemma total_step_finite:
  assumes "stats_ok (dict_get c ''vegetation_changes'') ''loss_percentage'' ''gain_percentage''"
      and "stats_ok (dict_get c ''urban_changes'') ''growth_percentage'' ''decline_percentage''"
      and "total_step c = Inr c'"
  shows "\<exists>t. dict_get c' ''total_change_percentage'' = Some (PyFloat (Fin t))"
proof -
  obtain t1 where t1: "(if truthy (dict_get c ''vegetation_changes'')
        then ebind (dict_get2 c ''vegetation_changes'' ''loss_percentage'') (\<lambda>l.
             ebind (dict_get2 c ''vegetation_changes'' ''gain_percentage'') (\<lambda>g.
               Inr (fadd (Fin 0) (fadd l g))))
        else Inr (Fin 0)) = Inr (Fin t1)"
    using stats_sum[OF assms(1), of 0] by auto
  obtain t2 where t2: "(if truthy (dict_get c ''urban_changes'')
        then ebind (dict_get2 c ''urban_changes'' ''growth_percentage'') (\<lambda>g.
             ebind (dict_get2 c ''urban_changes'' ''decline_percentage'') (\<lambda>d.
               Inr (fadd (Fin t1) (fadd g d))))
        else Inr (Fin t1)) = Inr (Fin t2)"
    using stats_sum[OF assms(2), of t1] by auto
  have "total_step c = Inr (dict_set c ''total_change_percentage'' (PyFloat (Fin t2)))"
    unfolding total_step_def t1 by (simp add: ebind_def t2)
  with assms(3) show ?thesis
    by (auto simp: dict_get_set)
qed

lemma analyze_total_finite:
  assumes "analyze_satellite_changes bn an bb ab = Inr changes"
      and "nonempty_opt bn" and "nonempty_opt an" and "nonempty_opt bb" and "nonempty_opt ab"
  shows "\<exists>t. dict_get changes ''total_change_percentage'' = Some (PyFloat (Fin t))"
proof -
  from assms(1) obtain c1 c2 where
    c1: "vegetation_step initial_changes bn an = Inr c1" and
    c2: "urban_step c1 bb ab = Inr c2" and
    c3: "total_step c2 = Inr changes"
    by (auto simp: analyze_satellite_changes_def ebind_Inr_iff)
  have i: "dict_get initial_changes ''vegetation_changes'' = Some (PyDict [])"
          "dict_get initial_changes ''urban_changes'' = Some (PyDict [])"
    by (simp_all add: initial_changes_def dict_get_def)
  from vegetation_step_ok[OF c1 assms(2,3) i(1)] i(2)
  have v1: "stats_ok (dict_get c1 ''vegetation_changes'') ''loss_percentage'' ''gain_percentage''"
    and u1: "dict_get c1 ''urban_changes'' = Some (PyDict [])"
    by simp_all
  from urban_step_ok[OF c2 assms(4,5) u1] v1
  have "stats_ok (dict_get c2 ''urban_changes'') ''growth_percentage'' ''decline_percentage''"
    and "stats_ok (dict_get c2 ''vegetation_changes'') ''loss_percentage'' ''gain_percentage''"
    by simp_all
  from total_step_finite[OF this(2) this(1) c3] show ?thesis .
qed

lemma np_transpose_120_size_pos:
  "np_transpose_120 x = Inr y \<Longrightarrow> 0 < np_size x \<Longrightarrow> 0 < np_size y"
  by (auto simp: np_transpose_120_def np_size_def split: list.splits)

lemma pixel_change_core_finite:
  assumes "pixel_change_core b a k = Inr pix" and "0 < np_size b" and "0 < np_size a"
  shows "\<exists>p. pix = Fin p"
proof -
  obtain d where d: "np_binop fsub a b = Inr d"
    using assms(1)
    by (cases "np_binop fsub a b") (simp_all add: pixel_change_core_exact astype_float_def ebind_def)
  obtain dm where dm: "np_mean_last (np_map fabs d) = Inr dm"
    using assms(1) d
    by (cases "np_mean_last (np_map fabs d)")
       (simp_all add: pixel_change_core_exact astype_float_def ebind_def Let_def)
  have "0 \<notin> set (shape d)"
    using np_binop_size_pos[OF d assms(3,2)] by (simp add: np_size_pos_iff)
  moreover have "shape dm = butlast (shape d)"
    using dm by (auto simp: np_mean_last_def np_map_def Let_def split: if_splits)
  ultimately have "0 \<notin> set (shape dm)"
    by (auto dest: in_set_butlastD)
  then have "0 < prod_list (shape dm)"
    using np_size_pos_iff[of dm] by (simp add: np_size_def)
  then show ?thesis
    using assms(1) d dm
    by (auto simp: pixel_change_core_exact astype_float_def ebind_def Let_def np_size_def np_map_def)
qed

lemma pixel_change_finite:
  assumes "calculate_pixel_change_percentage env before after k cmp = Inr pix"
      and "0 < np_size before" and "0 < np_size after"
  shows "\<exists>p. pix = Fin p"
  using assms
  by (auto simp: calculate_drop_map ebind_Inr_iff split: if_splits
      intro: pixel_change_core_finite np_transpose_120_size_pos)

text \<open>
  Claim C1. For every pair of non-empty rasters for which \<open>process_geotiff\<close> returns a report,
  the index path has produced a finite aggregate \<open>t\<close>, the Pixel Change Detector a finite
  percentage \<open>p\<close>, the report's \<open>pixel_change_percentage\<close> is \<open>p\<close> and its
  \<open>total_change_percentage\<close> is the maximum of \<open>t\<close> and \<open>p\<close>; in particular it is at least \<open>p\<close>.
\<close>

theorem reconciled_total_is_max:
  assumes "process_geotiff env before after cmp k = Inr report"
      and "0 < np_size before" and "0 < np_size after"
  shows "\<exists>bn an bb ab changes t p.
           compute_indices before after = Inr (bn, an, bb, ab) \<and>
           analyze_satellite_changes bn an bb ab = Inr changes \<and>
           dict_get changes ''total_change_percentage'' = Some (PyFloat (Fin t)) \<and>
           calculate_pixel_change_percentage env before after k cmp = Inr (Fin p) \<and>
           dict_get report ''pixel_change_percentage'' = Some (PyFloat (Fin p)) \<and>
           dict_get report ''total_change_percentage'' = Some (PyFloat (Fin (max t p))) \<and>
           p \<le> max t p"
proof -
  from assms(1) obtain bn an bb ab changes pix where
    ci: "compute_indices before after = Inr (bn, an, bb, ab)" and
    an: "analyze_satellite_changes bn an bb ab = Inr changes" and
    px: "calculate_pixel_change_percentage env before after k cmp = Inr pix" and
    rp: "report =
          (let changes = dict_set changes ''pixel_change_percentage'' (PyFloat pix)
           in if fgt pix (get_total changes)
              then dict_set changes ''total_change_percentage'' (PyFloat pix)
              else changes)"
    by (auto simp: process_geotiff_def ebind_Inr_iff Let_def split: if_splits)
  from compute_indices_nonempty[OF ci assms(2,3)] analyze_total_finite[OF an]
  obtain t where t: "dict_get changes ''total_change_percentage'' = Some (PyFloat (Fin t))"
    by blast
  from pixel_change_finite[OF px assms(2,3)] obtain p where p: "pix = Fin p" by blast
  have gt: "get_total (dict_set changes ''pixel_change_percentage'' v) = Fin t" for v
    using t by (simp add: get_total_def dict_get_set)
  have "dict_get report ''pixel_change_percentage'' = Some (PyFloat (Fin p))"
    and "dict_get report ''total_change_percentage'' = Some (PyFloat (Fin (max t p)))"
    using t by (auto simp: rp Let_def gt p dict_get_set max_def)
  with ci an t px p show ?thesis by auto
qed

lemma ex_four_band_indices:
  "compute_indices (np_full [4, 1, 2] (Fin 0))
     (np_array3 [[[0, 8]], [[0, 0]], [[0, 0]], [[0, 0]]])
   = Inr (Some (np_full [1, 2] (Fin 0)), Some (np_full [1, 2] (Fin 0)), None, None)"
  by (simp add: compute_indices_def shape0_def np_getitem_def np_full_def np_array3_def ebind_def
      calculate_ndvi_exact astype_float_def np_binop_def broadcast_shapes_def guard_zero_exact
      np_map_def fsub_def epsilon_def Let_def fun_eq_iff)

lemma ex_four_band_analysis:
  "analyze_satellite_changes (Some (np_full [1, 2] (Fin 0))) (Some (np_full [1, 2] (Fin 0)))
     None None
   = Inr [(''analysis_type'', PyStr ''satellite_indices''),
          (''vegetation_changes'',
             PyDict [(''loss_percentage'', PyFloat (Fin 0)),
                     (''gain_percentage'', PyFloat (Fin 0)),
                     (''net_change'', PyFloat (Fin 0)),
                     (''mean_ndvi_change'', PyFloat (Fin 0))]),
          (''urban_changes'', PyDict []),
          (''total_change_percentage'', PyFloat (Fin 0))]"
  by (simp add: analyze_satellite_changes_def initial_changes_def vegetation_step_def
      urban_step_def total_step_def ebind_def np_binop_def broadcast_shapes_def np_full_def
      count_where_def np_count_true_def np_map_def np_tolist_def np_size_def np_mean_def
      percentage_def fsum_def fsub_def flt_def dict_get_def dict_set_def dict_get2_def Let_def
      upt2)

lemma ex_four_band_process:
  "process_geotiff closed_env (np_full [4, 1, 2] (Fin 0))
     (np_array3 [[[0, 8]], [[0, 0]], [[0, 0]], [[0, 0]]]) None (1 / 2) = Inr four_band_report"
proof -
  define B :: "npfloat ndarray" where "B = np_full [4, 1, 2] (Fin 0)"
  define A where "A = np_array3 [[[0, 8]], [[0, 0]], [[0, 0]], [[0, 0]]]"
  define Z :: "npfloat ndarray" where "Z = np_full [1, 2] (Fin 0)"
  define k :: real where "k = 1 / 2"
  have ci: "compute_indices B A = Inr (Some Z, Some Z, None, None)"
    unfolding B_def A_def Z_def by (rule ex_four_band_indices)
  have an: "analyze_satellite_changes (Some Z) (Some Z) None None
   = Inr [(''analysis_type'', PyStr ''satellite_indices''),
          (''vegetation_changes'',
             PyDict [(''loss_percentage'', PyFloat (Fin 0)),
                     (''gain_percentage'', PyFloat (Fin 0)),
                     (''net_change'', PyFloat (Fin 0)),
                     (''mean_ndvi_change'', PyFloat (Fin 0))]),
          (''urban_changes'', PyDict []),
          (''total_change_percentage'', PyFloat (Fin 0))]"
    unfolding Z_def by (rule ex_four_band_analysis)
  have px: "calculate_pixel_change_percentage closed_env B A k None = Inr (Fin 50)"
    unfolding B_def A_def k_def by (rule ex_four_band_pixel)
  have "process_geotiff closed_env B A None k = Inr four_band_report"
    by (simp add: process_geotiff_def ci an px ebind_def dict_set_def dict_get_def get_total_def
        Let_def four_band_report_def)
  then show ?thesis
    unfolding B_def A_def k_def .
qed

theorem reconciled_total_is_max_witness:
  "process_geotiff closed_env (np_full [4, 1, 2] (Fin 0))
     (np_array3 [[[0, 8]], [[0, 0]], [[0, 0]], [[0, 0]]]) None (1 / 2) = Inr four_band_report \<and>
   0 < np_size (np_full [4, 1, 2] (Fin 0 :: npfloat)) \<and>
   0 < np_size (np_array3 [[[0, 8]], [[0, 0]], [[0, 0]], [[0, 0]]]) \<and>
   (\<exists>t p. dict_get four_band_report ''pixel_change_percentage'' = Some (PyFloat (Fin p)) \<and>
      dict_get four_band_report ''total_change_percentage'' = Some (PyFloat (Fin (max t p))) \<and>
      p \<le> max t p)"
proof -
  have s1: "0 < np_size (np_full [4, 1, 2] (Fin 0 :: npfloat))"
    by (simp add: np_size_def np_full_def)
  have s2: "0 < np_size (np_array3 [[[0, 8]], [[0, 0]], [[0, 0]], [[0, 0]]])"
    by (simp add: np_size_def np_array3_def)
  from reconciled_total_is_max[OF ex_four_band_process s1 s2] ex_four_band_process s1 s2
  show ?thesis by blast
qed

section \<open>The fallback to ordinary images\<close>

lemma fallback_type_error:
  assumes "rasterio_read env before_path = Inl RasterioIOError \<or>
           (\<exists>b. rasterio_read env before_path = Inr b) \<and>
           rasterio_read env after_path = Inl RasterioIOError"
  shows "detect_changes env before_path after_path cmp k = Inl TypeError"
  using assms
  by (auto simp: detect_changes_def call_process_regular_image_def bind_arguments_def ebind_def)

lemma ex_rgb_report:
  "process_regular_image rgb_only_env ''before.png'' ''after.png'' = Inr rgb_report"
  by (simp add: process_regular_image_def rgb_only_env_def ebind_def astype_float_def
      np_binop_def broadcast_shapes_def np_full_def np_map_def np_size_def count_where_def
      np_count_true_def np_tolist_def np_getitem_axis2_def percentage_def py_int_def fsub_def
      Let_def rgb_report_def upt_rec)

text \<open>
  Claim C2 at a pair of files that are no rasters but ordinary images: \<open>detect_changes\<close>
  calls \<open>process_regular_image\<close> with three positional arguments and the keyword
  \<open>threshold_factor\<close>, while the function takes two positional parameters, so the call
  raises \<open>TypeError\<close>. Called with the two paths alone, the function returns an
  \<open>rgb_based\<close> report for the same files.
\<close>

theorem fallback_call_fails:
  "detect_changes rgb_only_env ''before.png'' ''after.png'' None 1 = Inl TypeError \<and>
   process_regular_image rgb_only_env ''before.png'' ''after.png'' = Inr rgb_report"
  using ex_rgb_report fallback_type_error[of rgb_only_env "''before.png''" "''after.png''" None 1]
  by (simp add: rgb_only_env_def)

end
